theory Spec2Isabelle
  imports Complex_Main
begin

section \<open>JavaScript values\<close>

text \<open>
  A thrown value. Every \<open>await\<close> of an external operation that can reject is modelled by a
  result of type \<open>js_error + 'a\<close>, with \<open>Inl\<close> the rejection.
\<close>

datatype js_error = Error string

text \<open>
  A JavaScript number: \<open>NaN\<close>, negative zero, an infinity (\<open>True\<close> is the positive one), or a
  finite value; \<open>Num 0\<close> is positive zero.
\<close>

datatype js_number = NaN | NegZero | Infinity bool | Num rat

text \<open>ToBoolean on a number: \<open>NaN\<close> and both zeros are falsy.\<close>

fun number_truthy :: "js_number \<Rightarrow> bool" where
  "number_truthy NaN = False"
| "number_truthy NegZero = False"
| "number_truthy (Infinity _) = True"
| "number_truthy (Num q) = (q \<noteq> 0)"

fun Number_isNaN :: "js_number \<Rightarrow> bool" where
  "Number_isNaN NaN = True"
| "Number_isNaN _ = False"

text \<open>ToBoolean on a string: only the empty string is falsy.\<close>

definition truthy :: "string \<Rightarrow> bool" where
  "truthy s = (s \<noteq> [])"

text \<open>\<open>a || b\<close> where \<open>a\<close> is a string or undefined and \<open>b\<close> a string or null.\<close>

definition or_else :: "string option \<Rightarrow> string option \<Rightarrow> string option" where
  "or_else a b = (case a of Some s \<Rightarrow> if truthy s then Some s else b | None \<Rightarrow> b)"

text \<open>\<open>a ?? ''\<close> on a string or null.\<close>

definition or_empty :: "string option \<Rightarrow> string" where
  "or_empty a = (case a of Some s \<Rightarrow> s | None \<Rightarrow> [])"

text \<open>
  The conversion \<open>Number(s)\<close> of a string is the builtin of the language; it is a
  parameter of the model, carried by the environment of each program that calls it.
\<close>

record js_builtins =
  Number :: "string \<Rightarrow> js_number"

text \<open>\<open>Number(x)\<close> for \<open>x\<close> a string or null: \<open>Number(null)\<close> is positive zero.\<close>

definition Number_nullable :: "(string \<Rightarrow> js_number) \<Rightarrow> string option \<Rightarrow> js_number" where
  "Number_nullable conv x = (case x of None \<Rightarrow> Num 0 | Some s \<Rightarrow> conv s)"

section \<open>The payment webhook (src/unnamed/part\_000)\<close>

subsection \<open>Request, event and response\<close>

text \<open>
  \<open>req.headers['stripe-signature']\<close> is undefined, one string, or an array of strings.
\<close>

datatype header_value = Header_undefined | Header_string string | Header_array "string list"

record request =
  stripe_signature :: header_value
  raw_body :: string

text \<open>
  The part of \<open>Stripe.Checkout.Session\<close> the handler reads: \<open>metadata\<close> is null or a
  dictionary of strings, \<open>client_reference_id\<close> is null or a string.
\<close>

record checkout_session =
  client_reference_id :: "string option"
  metadata :: "(string \<rightharpoonup> string) option"

text \<open>
  The event built by \<open>stripe.webhooks.constructEvent\<close>; \<open>data_object\<close> is
  \<open>event.data.object\<close>, which the handler casts to a checkout session.
\<close>

record event =
  event_type :: string
  data_object :: checkout_session

text \<open>\<open>session.metadata?.key\<close>: undefined when the metadata is null or lacks the key.\<close>

definition metadata_get :: "checkout_session \<Rightarrow> string \<Rightarrow> string option" where
  "metadata_get session key = (case metadata session of None \<Rightarrow> None | Some m \<Rightarrow> m key)"

text \<open>\<open>res.status(n).json({ success, message })\<close>.\<close>

record response =
  status :: nat
  success :: bool
  message :: string

text \<open>What a run of the handler ends with: a response, or a thrown value that nothing catches.\<close>

datatype outcome = Responded response | Threw js_error

subsection \<open>The database, the cache and the calls made\<close>

text \<open>
  The enumerations of the generated database client; only the members the sources name
  are known, and the handler writes only those.
\<close>

datatype DocumentStatus = COMPLETED | Other_DocumentStatus
datatype FieldType = SIGNATURE | Other_FieldType
datatype ReadStatus = OPENED | Other_ReadStatus
datatype SendStatus = SENT | Other_SendStatus
datatype SigningStatus = SIGNED | Other_SigningStatus

text \<open>
  Rows carry the columns the sources read or write. A \<open>_data\<close> record is the \<open>data\<close> argument
  of a \<open>create\<close>; the row extends it with the generated id. The name of a user is nullable
  (the handler writes \<open>user.name ?? ''\<close>).
\<close>

record User =
  user_id :: int
  user_name :: "string option"
  user_email :: string

record Document_data =
  document_title :: string
  document_status :: DocumentStatus
  document_userId :: int
  document_document :: string
  document_created :: nat

record Document = Document_data +
  document_id :: int

record Recipient_data =
  recipient_name :: string
  recipient_email :: string
  recipient_token :: string
  recipient_signedAt :: "nat option"
  recipient_readStatus :: ReadStatus
  recipient_sendStatus :: SendStatus
  recipient_signingStatus :: SigningStatus
  recipient_documentId :: int

record Recipient = Recipient_data +
  recipient_id :: int

record Field_data =
  field_documentId :: int
  field_recipientId :: int
  field_type :: FieldType
  field_page :: int
  field_positionX :: int
  field_positionY :: int
  field_inserted :: bool
  field_customText :: string

record Field = Field_data +
  field_id :: int

text \<open>
  \<open>signatureImageAsBase64\<close> is unset when the data gives undefined; \<open>typedSignature\<close> is
  null when the data gives null.
\<close>

record Signature_data =
  signature_fieldId :: int
  signature_recipientId :: int
  signatureImageAsBase64 :: "string option"
  typedSignature :: "string option"

record Signature = Signature_data +
  signature_id :: int

text \<open>The operations on external services whose arguments the claims speak about.\<close>

datatype call =
    Call_user_findFirst js_number
  | Call_redis_get string
  | Call_insertImageInPDF string string int int int
  | Call_insertTextInPDF string string int int int

text \<open>
  The state a run of the handler reads and writes: the five tables, the cache, and the
  log of the calls made so far (oldest first).
\<close>

record world =
  db_users :: "User list"
  db_documents :: "Document list"
  db_recipients :: "Recipient list"
  db_fields :: "Field list"
  db_signatures :: "Signature list"
  redis :: "string \<rightharpoonup> string"
  calls :: "call list"

text \<open>The tables alone, to say that a run changed none of them.\<close>

definition tables ::
  "world \<Rightarrow> User list \<times> Document list \<times> Recipient list \<times> Field list \<times> Signature list" where
  "tables w = (db_users w, db_documents w, db_recipients w, db_fields w, db_signatures w)"

text \<open>The writes the handler sends to the database, with their arguments.\<close>

datatype prisma_write =
    Document_create Document_data
  | Recipient_create Recipient_data
  | Field_create Field_data
  | Signature_create Signature_data
  | Document_update int string

text \<open>
  What the handler imports and does not define. Every operation it awaits can reject, and
  nothing in the handler catches a rejection:
  \<^item> \<open>buffer\<close> reads the body of the request, or rejects;
  \<^item> \<open>constructEvent\<close> verifies the body against the signature and the secret of the
    environment and builds the event, or throws;
  \<^item> \<open>user_findFirst\<close> is the query for a user by id on the table of users;
  \<^item> \<open>redis_rejects\<close> says for a key whether the read of the cache rejects, and
    \<open>prisma_rejects\<close> says for a write whether the database rejects it; a read or a write
    that is not rejected acts on the state below;
  \<^item> \<open>readFileSync_base64\<close> reads the template file, \<open>randomBytes_hex\<close> gives the random
    token, \<open>new_Date\<close> the clock;
  \<^item> \<open>insertImageInPDF\<close> and \<open>insertTextInPDF\<close> are the stamping operations of the PDF
    library;
  \<^item> \<open>first_rejection_is_signature\<close> says, when both writes of the final \<open>Promise.all\<close>
    reject, whether the rejection of the first is the one that arrives first.
\<close>

record handler_env = js_builtins +
  NEXT_PRIVATE_STRIPE_WEBHOOK_SECRET :: "string option"
  buffer :: "request \<Rightarrow> js_error + string"
  constructEvent :: "string \<Rightarrow> string \<Rightarrow> string option \<Rightarrow> js_error + event"
  user_findFirst :: "User list \<Rightarrow> js_number \<Rightarrow> js_error + User option"
  redis_rejects :: "string \<Rightarrow> js_error option"
  prisma_rejects :: "prisma_write \<Rightarrow> js_error option"
  first_rejection_is_signature :: bool
  readFileSync_base64 :: "string \<Rightarrow> js_error + string"
  randomBytes_hex :: "nat \<Rightarrow> string"
  new_Date :: nat
  insertImageInPDF :: "string \<Rightarrow> string \<Rightarrow> int \<Rightarrow> int \<Rightarrow> int \<Rightarrow> js_error + string"
  insertTextInPDF :: "string \<Rightarrow> string \<Rightarrow> int \<Rightarrow> int \<Rightarrow> int \<Rightarrow> js_error + string"

definition log_call :: "call \<Rightarrow> world \<Rightarrow> world" where
  "log_call c w = w\<lparr>calls := calls w @ [c]\<rparr>"

text \<open>An autoincrement id: one more than every id of the table, and at least 1.\<close>

definition next_id :: "int list \<Rightarrow> int" where
  "next_id ids = fold max ids 0 + 1"

text \<open>\<open>prisma.user.findFirst({ where: { id } })\<close>\<close>

definition prisma_user_findFirst ::
  "handler_env \<Rightarrow> js_number \<Rightarrow> world \<Rightarrow> (js_error + User option) \<times> world" where
  "prisma_user_findFirst env n w =
     (user_findFirst env (db_users w) n, log_call (Call_user_findFirst n) w)"

text \<open>\<open>redis.get(key)\<close>: a rejection, or the stored string, or null.\<close>

definition redis_get ::
  "handler_env \<Rightarrow> string \<Rightarrow> world \<Rightarrow> (js_error + string option) \<times> world" where
  "redis_get env key w =
     (case redis_rejects env key of
        Some e \<Rightarrow> Inl e
      | None \<Rightarrow> Inr (redis w key),
      log_call (Call_redis_get key) w)"

text \<open>
  The four \<open>create\<close> operations: a rejected one leaves the table as it is; an accepted one
  appends the row and returns it with its id.
\<close>

definition prisma_document_create ::
  "handler_env \<Rightarrow> Document_data \<Rightarrow> world \<Rightarrow> (js_error + Document) \<times> world" where
  "prisma_document_create env d w =
     (case prisma_rejects env (Document_create d) of
        Some e \<Rightarrow> (Inl e, w)
      | None \<Rightarrow>
          (let row = Document_data.extend d
                       \<lparr>document_id = next_id (map document_id (db_documents w))\<rparr>
           in (Inr row, w\<lparr>db_documents := db_documents w @ [row]\<rparr>)))"

definition prisma_recipient_create ::
  "handler_env \<Rightarrow> Recipient_data \<Rightarrow> world \<Rightarrow> (js_error + Recipient) \<times> world" where
  "prisma_recipient_create env d w =
     (case prisma_rejects env (Recipient_create d) of
        Some e \<Rightarrow> (Inl e, w)
      | None \<Rightarrow>
          (let row = Recipient_data.extend d
                       \<lparr>recipient_id = next_id (map recipient_id (db_recipients w))\<rparr>
           in (Inr row, w\<lparr>db_recipients := db_recipients w @ [row]\<rparr>)))"

definition prisma_field_create ::
  "handler_env \<Rightarrow> Field_data \<Rightarrow> world \<Rightarrow> (js_error + Field) \<times> world" where
  "prisma_field_create env d w =
     (case prisma_rejects env (Field_create d) of
        Some e \<Rightarrow> (Inl e, w)
      | None \<Rightarrow>
          (let row = Field_data.extend d
                       \<lparr>field_id = next_id (map field_id (db_fields w))\<rparr>
           in (Inr row, w\<lparr>db_fields := db_fields w @ [row]\<rparr>)))"

definition prisma_signature_create ::
  "handler_env \<Rightarrow> Signature_data \<Rightarrow> world \<Rightarrow> (js_error + Signature) \<times> world" where
  "prisma_signature_create env d w =
     (case prisma_rejects env (Signature_create d) of
        Some e \<Rightarrow> (Inl e, w)
      | None \<Rightarrow>
          (let row = Signature_data.extend d
                       \<lparr>signature_id = next_id (map signature_id (db_signatures w))\<rparr>
           in (Inr row, w\<lparr>db_signatures := db_signatures w @ [row]\<rparr>)))"

text \<open>\<open>prisma.document.update({ where: { id }, data: { document } })\<close>\<close>

definition prisma_document_update ::
  "handler_env \<Rightarrow> int \<Rightarrow> string \<Rightarrow> world \<Rightarrow> (js_error + unit) \<times> world" where
  "prisma_document_update env i pdf w =
     (case prisma_rejects env (Document_update i pdf) of
        Some e \<Rightarrow> (Inl e, w)
      | None \<Rightarrow>
          (Inr (),
           w\<lparr>db_documents :=
                map (\<lambda>d. if document_id d = i then d\<lparr>document_document := pdf\<rparr> else d)
                  (db_documents w)\<rparr>))"

text \<open>The two stamping operations, logged with their arguments.\<close>

definition call_insertImageInPDF ::
  "handler_env \<Rightarrow> string \<Rightarrow> string \<Rightarrow> int \<Rightarrow> int \<Rightarrow> int \<Rightarrow> world \<Rightarrow> (js_error + string) \<times> world" where
  "call_insertImageInPDF env pdf img x y page w =
     (insertImageInPDF env pdf img x y page, log_call (Call_insertImageInPDF pdf img x y page) w)"

definition call_insertTextInPDF ::
  "handler_env \<Rightarrow> string \<Rightarrow> string \<Rightarrow> int \<Rightarrow> int \<Rightarrow> int \<Rightarrow> world \<Rightarrow> (js_error + string) \<times> world" where
  "call_insertTextInPDF env pdf str x y page w =
     (insertTextInPDF env pdf str x y page, log_call (Call_insertTextInPDF pdf str x y page) w)"

subsection \<open>The handler\<close>

text \<open>
  Lines 74 to 83: the typed signature text, and the cached image when the metadata names a
  cache key and the cache holds a non-empty string under it. The read of the cache is
  awaited and can reject.
\<close>

definition signatureText_of :: "checkout_session \<Rightarrow> User \<Rightarrow> string option" where
  "signatureText_of session user = or_else (metadata_get session ''signatureText'') (user_name user)"

definition fetch_signatureDataUrl ::
  "handler_env \<Rightarrow> checkout_session \<Rightarrow> world \<Rightarrow> (js_error + string) \<times> world" where
  "fetch_signatureDataUrl env session w =
     (case metadata_get session ''signatureDataUrl'' of
        None \<Rightarrow> (Inr [], w)
      | Some key \<Rightarrow>
          if truthy key then
            (case redis_get env (''signature:'' @ key) w of
               (Inl e, w') \<Rightarrow> (Inl e, w')
             | (Inr None, w') \<Rightarrow> (Inr [], w')
             | (Inr (Some v), w') \<Rightarrow> if truthy v then (Inr v, w') else (Inr [], w'))
          else (Inr [], w))"

text \<open>
  The \<open>data\<close> of the four \<open>create\<close> calls: lines 88 to 94, 98 to 107, 111 to 120 and 143 to
  148. The date is the one taken at line 85.
\<close>

definition document_data :: "handler_env \<Rightarrow> User \<Rightarrow> string \<Rightarrow> Document_data" where
  "document_data env user template =
     \<lparr>document_title = ''Documenso Supporter Pledge.pdf'',
      document_status = COMPLETED,
      document_userId = user_id user,
      document_document = template,
      document_created = new_Date env\<rparr>"

definition recipient_data :: "handler_env \<Rightarrow> User \<Rightarrow> int \<Rightarrow> Recipient_data" where
  "recipient_data env user documentId =
     \<lparr>recipient_name = or_empty (user_name user),
      recipient_email = user_email user,
      recipient_token = randomBytes_hex env 16,
      recipient_signedAt = Some (new_Date env),
      recipient_readStatus = OPENED,
      recipient_sendStatus = SENT,
      recipient_signingStatus = SIGNED,
      recipient_documentId = documentId\<rparr>"

definition field_data :: "int \<Rightarrow> int \<Rightarrow> Field_data" where
  "field_data documentId recipientId =
     \<lparr>field_documentId = documentId,
      field_recipientId = recipientId,
      field_type = SIGNATURE,
      field_page = 0,
      field_positionX = 77,
      field_positionY = 638,
      field_inserted = False,
      field_customText = []\<rparr>"

definition signature_data :: "int \<Rightarrow> int \<Rightarrow> string \<Rightarrow> string option \<Rightarrow> Signature_data" where
  "signature_data fieldId recipientId signatureDataUrl signatureText =
     \<lparr>signature_fieldId = fieldId,
      signature_recipientId = recipientId,
      signatureImageAsBase64 = (if truthy signatureDataUrl then Some signatureDataUrl else None),
      typedSignature = (if truthy signatureDataUrl then Some [] else signatureText)\<rparr>"

text \<open>
  Lines 87 to 121: the document, the recipient and the field are created one after the
  other; the first rejected write ends the block.
\<close>

definition create_rows ::
  "handler_env \<Rightarrow> User \<Rightarrow> string \<Rightarrow> world \<Rightarrow> (js_error + Document \<times> Recipient \<times> Field) \<times> world" where
  "create_rows env user template w1 =
     (case prisma_document_create env (document_data env user template) w1 of
        (Inl e, w2) \<Rightarrow> (Inl e, w2)
      | (Inr document, w2) \<Rightarrow>
          (case prisma_recipient_create env
                  (recipient_data env user (document_id document)) w2 of
             (Inl e, w3) \<Rightarrow> (Inl e, w3)
           | (Inr recipient, w3) \<Rightarrow>
               (case prisma_field_create env
                       (field_data (document_id document) (recipient_id recipient)) w3 of
                  (Inl e, w4) \<Rightarrow> (Inl e, w4)
                | (Inr field, w4) \<Rightarrow> (Inr (document, recipient, field), w4))))"

text \<open>Lines 123 to 139: the image is stamped when there is one, the text otherwise.\<close>

definition stamp_document ::
  "handler_env \<Rightarrow> Document \<Rightarrow> Field \<Rightarrow> string \<Rightarrow> string option \<Rightarrow> world \<Rightarrow>
     (js_error + string) \<times> world" where
  "stamp_document env document field signatureDataUrl signatureText w4 =
     (if truthy signatureDataUrl then
        call_insertImageInPDF env (document_document document) signatureDataUrl
          (field_positionX field) (field_positionY field) (field_page field) w4
      else
        call_insertTextInPDF env (document_document document) (or_empty signatureText)
          (field_positionX field) (field_positionY field) (field_page field) w4)"

text \<open>
  Lines 141 to 158: \<open>Promise.all\<close> of the creation of the signature and the update of the
  document. Both writes are sent; each is accepted or rejected on its own, and the block
  throws when one is rejected. \<open>None\<close> means that both were accepted.
\<close>

definition persist_signature ::
  "handler_env \<Rightarrow> Signature_data \<Rightarrow> int \<Rightarrow> string \<Rightarrow> world \<Rightarrow> js_error option \<times> world" where
  "persist_signature env sd documentId pdf w5 =
     (let (created, w6) = prisma_signature_create env sd w5;
          (updated, w7) = prisma_document_update env documentId pdf w6
      in (case created of
            Inr _ \<Rightarrow> (case updated of Inr _ \<Rightarrow> None | Inl e \<Rightarrow> Some e)
          | Inl e1 \<Rightarrow>
              (case updated of
                 Inr _ \<Rightarrow> Some e1
               | Inl e2 \<Rightarrow> Some (if first_rejection_is_signature env then e1 else e2)),
          w7))"

text \<open>
  Lines 74 to 158, after the user was found: read the cache, read the template, create
  the rows, stamp the template, create the signature and store the stamped document.
  \<open>None\<close> means the block ran to its end; \<open>Some e\<close> that it threw \<open>e\<close>.
\<close>

definition create_pledge ::
  "handler_env \<Rightarrow> checkout_session \<Rightarrow> User \<Rightarrow> world \<Rightarrow> js_error option \<times> world" where
  "create_pledge env session user w0 =
     (let signatureText = signatureText_of session user
      in case fetch_signatureDataUrl env session w0 of
           (Inl e, w1) \<Rightarrow> (Some e, w1)
         | (Inr signatureDataUrl, w1) \<Rightarrow>
             (case readFileSync_base64 env ''./public/documenso-supporter-pledge.pdf'' of
                Inl e \<Rightarrow> (Some e, w1)
              | Inr template \<Rightarrow>
                  (case create_rows env user template w1 of
                     (Inl e, w4) \<Rightarrow> (Some e, w4)
                   | (Inr (document, recipient, field), w4) \<Rightarrow>
                       (case stamp_document env document field signatureDataUrl
                               signatureText w4 of
                          (Inl e, w5) \<Rightarrow> (Some e, w5)
                        | (Inr pdf, w5) \<Rightarrow>
                            persist_signature env
                              (signature_data (field_id field) (recipient_id recipient)
                                 signatureDataUrl signatureText)
                              (document_id document) pdf w5))))"

text \<open>
  Lines 60 to 159, the block for a session whose metadata says \<open>source = 'landing'\<close>:
  \<open>Some out\<close> when the block ends the run (a response or a throw), \<open>None\<close> when it runs to
  its end and the handler goes on to line 161.
\<close>

definition landing_checkout ::
  "handler_env \<Rightarrow> checkout_session \<Rightarrow> world \<Rightarrow> outcome option \<times> world" where
  "landing_checkout env session w =
     (let (found, w0) =
            prisma_user_findFirst env
              (Number_nullable (Number env) (client_reference_id session)) w
      in case found of
           Inl e \<Rightarrow> (Some (Threw e), w0)
         | Inr None \<Rightarrow>
             (Some (Responded \<lparr>status = 500, success = False, message = ''User not found''\<rparr>), w0)
         | Inr (Some user) \<Rightarrow>
             (case create_pledge env session user w0 of
                (Some e, w') \<Rightarrow> (Some (Threw e), w')
              | (None, w') \<Rightarrow> (None, w')))"

text \<open>Lines 35 and 36: the header when it is a string, the empty string otherwise.\<close>

definition request_sig :: "request \<Rightarrow> string" where
  "request_sig req = (case stripe_signature req of Header_string s \<Rightarrow> s | _ \<Rightarrow> [])"

text \<open>The handler, lines 26 to 173 (the calls to \<open>console.log\<close> are left out).\<close>

definition handler :: "handler_env \<Rightarrow> request \<Rightarrow> world \<Rightarrow> outcome \<times> world" where
  "handler env req w =
     (let sig = request_sig req
      in if \<not> truthy sig then
           (Responded \<lparr>status = 400, success = False,
              message = ''No signature found in request''\<rparr>, w)
         else
           case buffer env req of
             Inl e \<Rightarrow> (Threw e, w)
           | Inr body \<Rightarrow>
               (case constructEvent env body sig (NEXT_PRIVATE_STRIPE_WEBHOOK_SECRET env) of
                  Inl e \<Rightarrow> (Threw e, w)
                | Inr event \<Rightarrow>
                    if event_type event = ''checkout.session.completed'' then
                      (let session = data_object event;
                           (early, w') =
                             (if metadata_get session ''source'' = Some ''landing''
                              then landing_checkout env session w
                              else (None, w))
                       in case early of
                            Some out \<Rightarrow> (out, w')
                          | None \<Rightarrow>
                              (Responded \<lparr>status = 200, success = True,
                                 message = ''Webhook received''\<rparr>, w'))
                    else
                      (Responded \<lparr>status = 400, success = False,
                         message = ''Unhandled webhook event''\<rparr>, w)))"

section \<open>The document page (documents/[id]/page.tsx)\<close>

record DocumentPageProps =
  params_id :: string

text \<open>
  What the page imports and does not define: the session of the signed-in user and the
  three queries, each taking the document id and the id of the user. Each can reject.
\<close>

record page_env = js_builtins +
  getRequiredServerComponentSession :: "js_error + User"
  getDocumentById :: "js_number \<Rightarrow> int \<Rightarrow> js_error + Document option"
  getRecipientsForDocument :: "js_number \<Rightarrow> int \<Rightarrow> js_error + Recipient list"
  getFieldsForDocument :: "js_number \<Rightarrow> int \<Rightarrow> js_error + Field list"

text \<open>
  The rendered page: the heading, the status badge, the recipient count (shown only when
  there is a recipient) and the properties handed to the edit form.
\<close>

record page_view =
  heading :: string
  status_badge :: DocumentStatus
  recipient_count :: "nat option"
  form_document :: Document
  form_user :: User
  form_recipients :: "Recipient list"
  form_fields :: "Field list"

text \<open>
  A run of the page ends with a redirect (\<open>redirect\<close> does not return), with the rendered
  page, or with a thrown value.
\<close>

datatype page_result = Redirected string | Rendered page_view | Page_threw js_error

definition DocumentPage :: "page_env \<Rightarrow> DocumentPageProps \<Rightarrow> page_result" where
  "DocumentPage env props =
     (let documentId = Number env (params_id props)
      in if \<not> number_truthy documentId \<or> Number_isNaN documentId then
           Redirected ''/documents''
         else
           case getRequiredServerComponentSession env of
             Inl e \<Rightarrow> Page_threw e
           | Inr session \<Rightarrow>
               (let document =
                      (case getDocumentById env documentId (user_id session) of
                         Inl _ \<Rightarrow> None
                       | Inr d \<Rightarrow> d)
                in case document of
                     None \<Rightarrow> Redirected ''/documents''
                   | Some doc \<Rightarrow>
                       (case getRecipientsForDocument env documentId (user_id session) of
                          Inl e \<Rightarrow> Page_threw e
                        | Inr recipients \<Rightarrow>
                            (case getFieldsForDocument env documentId (user_id session) of
                               Inl e \<Rightarrow> Page_threw e
                             | Inr flds \<Rightarrow>
                                 Rendered
                                   \<lparr>heading = document_title doc,
                                    status_badge = document_status doc,
                                    recipient_count =
                                      (if length recipients > 0
                                       then Some (length recipients) else None),
                                    form_document = doc,
                                    form_user = session,
                                    form_recipients = recipients,
                                    form_fields = flds\<rparr>))))"

section \<open>The two-factor dialog (sign/[token]/document-action-auth-2fa.tsx)\<close>

subsection \<open>The validation schema\<close>

text \<open>
  A token is a list of UTF-16 code units of any type \<open>'u\<close>; the length the schema checks
  is the number of code units.
\<close>

record 'u T2FAAuthFormSchema =
  token :: "'u list"

datatype ZodIssueCode = too_small | too_big

record ZodIssue =
  issue_code :: ZodIssueCode
  issue_path :: "string list"
  issue_message :: string

text \<open>
  \<open>Z2FAAuthFormSchema.safeParse\<close> on an object whose token is a string: \<open>min(4)\<close> reports
  a length below 4, \<open>max(10)\<close> a length above 10, and the value is accepted when neither
  reports.
\<close>

definition Z2FAAuthFormSchema :: "'u T2FAAuthFormSchema \<Rightarrow> ZodIssue list + 'u T2FAAuthFormSchema" where
  "Z2FAAuthFormSchema v =
     (let issues =
            (if length (token v) < 4
             then [\<lparr>issue_code = too_small, issue_path = [''token''],
                     issue_message = ''Token must at least 4 characters long''\<rparr>]
             else []) @
            (if length (token v) > 10
             then [\<lparr>issue_code = too_big, issue_path = [''token''],
                     issue_message = ''Token must be at most 10 characters long''\<rparr>]
             else [])
      in if issues = [] then Inr v else Inl issues)"

subsection \<open>Properties, context and state\<close>

datatype DocumentAuth = DocumentAuth_2FA | Other_DocumentAuth

record 'u TRecipientActionAuth =
  auth_type :: DocumentAuth
  auth_token :: "'u list"

datatype ActionTarget = FIELD | DOCUMENT

datatype RecipientRole = VIEWER | Other_RecipientRole

text \<open>
  The properties of the component. \<open>onReauthFormSubmit\<close> is the callback of the caller:
  \<open>None\<close> when its promise never settles, \<open>Some (Inl e)\<close> when it throws \<open>e\<close>, \<open>Some (Inr ())\<close>
  when it returns. \<open>onOpenChange\<close> returns nothing and, like the setters of the state, is
  taken not to throw; its calls are logged in the state.
\<close>

record 'u DocumentActionAuth2FAProps =
  actionTarget :: "ActionTarget option"
  actionVerb :: "string option"
  dialog_open :: bool
  onReauthFormSubmit :: "'u TRecipientActionAuth \<Rightarrow> (js_error + unit) option"

text \<open>
  What the component imports and does not define: \<open>AppError.parseError\<close>, which turns a
  caught value into an application error with a code, and the builtin \<open>toLowerCase\<close>.
\<close>

record AppError =
  app_code :: string
  app_message :: string

record dialog_env =
  parseError :: "js_error \<Rightarrow> AppError"
  toLowerCase :: "string \<Rightarrow> string"

text \<open>The part of the authentication context that does not change during a submission.\<close>

record auth_context =
  recipient_role :: RecipientRole
  user_twoFactorEnabled :: "bool option"

datatype 'u callback =
    Called_onReauthFormSubmit "'u TRecipientActionAuth"
  | Called_onOpenChange bool

text \<open>
  The state: the flag of the context with its setter, the error code of the component,
  the value and the errors of the form, and the log of the calls to the callbacks of the
  caller (oldest first).
\<close>

record 'u dialog_state =
  isCurrentlyAuthenticating :: bool
  formErrorCode :: "string option"
  form_token :: "'u list"
  form_errors :: "ZodIssue list"
  callbacks :: "'u callback list"

text \<open>A run that reached its end, or one that waits for the callback for ever.\<close>

datatype 'u run = Completed "'u dialog_state" | Pending "'u dialog_state"

subsection \<open>Submission\<close>

definition setIsCurrentlyAuthenticating :: "bool \<Rightarrow> 'u dialog_state \<Rightarrow> 'u dialog_state" where
  "setIsCurrentlyAuthenticating b st = st\<lparr>isCurrentlyAuthenticating := b\<rparr>"

definition setFormErrorCode :: "string option \<Rightarrow> 'u dialog_state \<Rightarrow> 'u dialog_state" where
  "setFormErrorCode c st = st\<lparr>formErrorCode := c\<rparr>"

definition log_callback :: "'u callback \<Rightarrow> 'u dialog_state \<Rightarrow> 'u dialog_state" where
  "log_callback c st = st\<lparr>callbacks := callbacks st @ [c]\<rparr>"

text \<open>Lines 63 to 83.\<close>

definition onFormSubmit ::
  "dialog_env \<Rightarrow> 'u DocumentActionAuth2FAProps \<Rightarrow> 'u T2FAAuthFormSchema \<Rightarrow> 'u dialog_state \<Rightarrow> 'u run" where
  "onFormSubmit env props values st =
     (let st1 = setIsCurrentlyAuthenticating True st;
          auth = \<lparr>auth_type = DocumentAuth_2FA, auth_token = token values\<rparr>;
          st2 = log_callback (Called_onReauthFormSubmit auth) st1
      in case onReauthFormSubmit props auth of
           None \<Rightarrow> Pending st2
         | Some (Inr _) \<Rightarrow>
             Completed
               (log_callback (Called_onOpenChange False) (setIsCurrentlyAuthenticating False st2))
         | Some (Inl err) \<Rightarrow>
             (let st3 = setIsCurrentlyAuthenticating False st2;
                  error = parseError env err
              in Completed (setFormErrorCode (Some (app_code error)) st3)))"

text \<open>
  \<open>form.handleSubmit(onFormSubmit)\<close> with the resolver of the schema, as the form library
  specifies it: the values of the form are validated first; when validation reports
  issues they become the errors of the form and the handler is not called, otherwise the
  errors are cleared and the handler runs on the validated values.
\<close>

definition handleSubmit ::
  "dialog_env \<Rightarrow> 'u DocumentActionAuth2FAProps \<Rightarrow> 'u dialog_state \<Rightarrow> 'u run" where
  "handleSubmit env props st =
     (case Z2FAAuthFormSchema \<lparr>token = form_token st\<rparr> of
        Inl issues \<Rightarrow> Completed (st\<lparr>form_errors := issues\<rparr>)
      | Inr values \<Rightarrow> onFormSubmit env props values (st\<lparr>form_errors := []\<rparr>))"

text \<open>Lines 85 to 91: the effect that runs when \<open>open\<close> changes.\<close>

definition on_open_changed :: "'u dialog_state \<Rightarrow> 'u dialog_state" where
  "on_open_changed st = setFormErrorCode None (st\<lparr>form_token := [], form_errors := []\<rparr>)"

subsection \<open>Rendering\<close>

datatype AlertVariant = Variant_warning | Variant_destructive

text \<open>
  The elements of the rendered tree that carry text or state: an alert with its variant,
  title and description, a button with its label, a link with its target and label, the
  label, the input with its value, and the message of the field.
\<close>

datatype 'u element =
    Alert AlertVariant "string option" string
  | Button string
  | Link string string
  | FormLabel string
  | Input "'u list" string
  | FormMessage "string option"

text \<open>Either the notice that two-factor is not set up, or the form with its fieldset.\<close>

datatype 'u dialog_view =
    Setup_notice "'u element list"
  | Auth_form bool "'u element list"

text \<open>Lines 93 to 160.\<close>

definition DocumentActionAuth2FA ::
  "dialog_env \<Rightarrow> 'u DocumentActionAuth2FAProps \<Rightarrow> auth_context \<Rightarrow> 'u dialog_state \<Rightarrow> 'u dialog_view" where
  "DocumentActionAuth2FA env props ctx st =
     (let target = (case actionTarget props of None \<Rightarrow> FIELD | Some t \<Rightarrow> t);
          verb = (case actionVerb props of None \<Rightarrow> ''sign'' | Some v \<Rightarrow> v)
      in if user_twoFactorEnabled ctx \<noteq> Some True then
           Setup_notice
             [Alert Variant_warning None
                (if recipient_role ctx = VIEWER \<and> target = DOCUMENT
                 then ''You need to setup 2FA to mark this document as viewed.''
                 else ''You need to setup 2FA to '' @ toLowerCase env verb @ '' this '' @
                      toLowerCase env (case target of FIELD \<Rightarrow> ''FIELD'' | DOCUMENT \<Rightarrow> ''DOCUMENT'') @
                      ''.''),
              Button ''Close'',
              Link ''/settings/security'' ''Setup 2FA'']
         else
           Auth_form (isCurrentlyAuthenticating st)
             ([FormLabel ''2FA token'',
               Input (form_token st) ''Token'',
               FormMessage (case form_errors st of [] \<Rightarrow> None | i # _ \<Rightarrow> Some (issue_message i))] @
              (case formErrorCode st of
                 None \<Rightarrow> []
               | Some c \<Rightarrow>
                   if truthy c then
                     [Alert Variant_destructive (Some ''Unauthorized'')
                        ''We were unable to verify your details. Please try again or contact support'']
                   else []) @
              [Button ''Cancel'', Button ''Sign'']))"

text \<open>The text a view shows, element by element (the value of the input left out).\<close>

fun element_text :: "'u element \<Rightarrow> string list" where
  "element_text (Alert _ title description) =
     (case title of None \<Rightarrow> [] | Some t \<Rightarrow> [t]) @ [description]"
| "element_text (Button label) = [label]"
| "element_text (Link _ label) = [label]"
| "element_text (FormLabel label) = [label]"
| "element_text (Input _ placeholder) = [placeholder]"
| "element_text (FormMessage m) = (case m of None \<Rightarrow> [] | Some t \<Rightarrow> [t])"

fun view_elements :: "'u dialog_view \<Rightarrow> 'u element list" where
  "view_elements (Setup_notice es) = es"
| "view_elements (Auth_form _ es) = es"

definition view_text :: "'u dialog_view \<Rightarrow> string list" where
  "view_text v = concat (map element_text (view_elements v))"

fun is_Alert :: "'u element \<Rightarrow> bool" where
  "is_Alert (Alert _ _ _) = True"
| "is_Alert _ = False"

definition view_alerts :: "'u dialog_view \<Rightarrow> 'u element list" where
  "view_alerts v = filter is_Alert (view_elements v)"

section \<open>What the claims compare the programs with\<close>

text \<open>
  The stamping the specification describes, in its words: the image insertion on the
  cached image when the metadata supplies a cache key and the cache holds a non-empty value
  under it, otherwise the text insertion on the typed text, which is the \<open>signatureText\<close>
  of the metadata when there is one and the name of the user otherwise; both at page 0,
  x = 77, y = 638. A key or a text that is the empty string counts as absent, and a user
  without a name as the empty name.
\<close>

definition spec_cached_image :: "checkout_session \<Rightarrow> (string \<rightharpoonup> string) \<Rightarrow> string option" where
  "spec_cached_image session cache =
     (case metadata_get session ''signatureDataUrl'' of
        None \<Rightarrow> None
      | Some key \<Rightarrow>
          if key = [] then None
          else (case cache (''signature:'' @ key) of
                  None \<Rightarrow> None
                | Some img \<Rightarrow> if img = [] then None else Some img))"

definition spec_typed_text :: "checkout_session \<Rightarrow> User \<Rightarrow> string" where
  "spec_typed_text session user =
     (let name = (case user_name user of None \<Rightarrow> [] | Some n \<Rightarrow> n)
      in case metadata_get session ''signatureText'' of
           None \<Rightarrow> name
         | Some t \<Rightarrow> if t = [] then name else t)"

definition spec_stamp ::
  "handler_env \<Rightarrow> checkout_session \<Rightarrow> User \<Rightarrow> (string \<rightharpoonup> string) \<Rightarrow> string \<Rightarrow> js_error + string" where
  "spec_stamp env session user cache template =
     (case spec_cached_image session cache of
        Some img \<Rightarrow> insertImageInPDF env template img 77 638 0
      | None \<Rightarrow> insertTextInPDF env template (spec_typed_text session user) 77 638 0)"

text \<open>The coordinates and the page of a stamping call; the calls a run added to the log.\<close>

fun stamp_position :: "call \<Rightarrow> (int \<times> int \<times> int) option" where
  "stamp_position (Call_insertImageInPDF _ _ x y page) = Some (x, y, page)"
| "stamp_position (Call_insertTextInPDF _ _ x y page) = Some (x, y, page)"
| "stamp_position _ = None"

definition new_calls :: "world \<Rightarrow> world \<Rightarrow> call list" where
  "new_calls w w' = drop (length (calls w)) (calls w')"

fun stamped_text :: "call \<Rightarrow> string option" where
  "stamped_text (Call_insertTextInPDF _ str _ _ _) = Some str"
| "stamped_text _ = None"

fun stamped_image :: "call \<Rightarrow> string option" where
  "stamped_image (Call_insertImageInPDF _ img _ _ _) = Some img"
| "stamped_image _ = None"

text \<open>A column is populated when it holds a non-empty string.\<close>

definition populated :: "string option \<Rightarrow> bool" where
  "populated x = (case x of None \<Rightarrow> False | Some s \<Rightarrow> s \<noteq> [])"

text \<open>
  The request carries a signature, its body is read and verifies to the event \<open>ev\<close>; the
  event is a completed checkout; its metadata says it comes from the landing page; the
  result of the query for the paying user (line 61).
\<close>

definition verified_event :: "handler_env \<Rightarrow> request \<Rightarrow> event \<Rightarrow> bool" where
  "verified_event env req ev \<longleftrightarrow>
     truthy (request_sig req) \<and>
     (case buffer env req of
        Inl _ \<Rightarrow> False
      | Inr body \<Rightarrow>
          constructEvent env body (request_sig req) (NEXT_PRIVATE_STRIPE_WEBHOOK_SECRET env)
            = Inr ev)"

definition checkout_completed :: "event \<Rightarrow> bool" where
  "checkout_completed ev \<longleftrightarrow> event_type ev = ''checkout.session.completed''"

definition from_landing :: "event \<Rightarrow> bool" where
  "from_landing ev \<longleftrightarrow> metadata_get (data_object ev) ''source'' = Some ''landing''"

definition reference_number :: "handler_env \<Rightarrow> event \<Rightarrow> js_number" where
  "reference_number env ev = Number_nullable (Number env) (client_reference_id (data_object ev))"

definition paying_user :: "handler_env \<Rightarrow> world \<Rightarrow> event \<Rightarrow> js_error + User option" where
  "paying_user env w ev = user_findFirst env (db_users w) (reference_number env ev)"

text \<open>
  The read of the cache that the session asks for, if it asks for one, is not rejected.
\<close>

definition cache_read_returns :: "handler_env \<Rightarrow> checkout_session \<Rightarrow> bool" where
  "cache_read_returns env session \<longleftrightarrow>
     (case metadata_get session ''signatureDataUrl'' of
        None \<Rightarrow> True
      | Some key \<Rightarrow> key = [] \<or> redis_rejects env (''signature:'' @ key) = None)"

text \<open>
  The writes of a run that starts in the state \<open>w\<close>, reads the template \<open>template\<close> and
  stamps it to \<open>pdf\<close>: the three creations of lines 87 to 121, the creation of the
  signature and the update of the document of lines 141 to 158, with the ids the tables of
  \<open>w\<close> give. A list of writes is accepted when the database rejects none of them.
\<close>

definition pledge_creates :: "handler_env \<Rightarrow> User \<Rightarrow> world \<Rightarrow> string \<Rightarrow> prisma_write list" where
  "pledge_creates env user w template =
     (let did = next_id (map document_id (db_documents w));
          rid = next_id (map recipient_id (db_recipients w))
      in [Document_create (document_data env user template),
          Recipient_create (recipient_data env user did),
          Field_create (field_data did rid)])"

definition pledge_signature_create :: "checkout_session \<Rightarrow> User \<Rightarrow> world \<Rightarrow> prisma_write" where
  "pledge_signature_create session user w =
     Signature_create
       (signature_data
          (next_id (map field_id (db_fields w)))
          (next_id (map recipient_id (db_recipients w)))
          (case spec_cached_image session (redis w) of None \<Rightarrow> [] | Some img \<Rightarrow> img)
          (signatureText_of session user))"

definition pledge_document_update :: "world \<Rightarrow> string \<Rightarrow> prisma_write" where
  "pledge_document_update w pdf = Document_update (next_id (map document_id (db_documents w))) pdf"

definition accepted :: "handler_env \<Rightarrow> prisma_write list \<Rightarrow> bool" where
  "accepted env ops \<longleftrightarrow> list_all (\<lambda>op. prisma_rejects env op = None) ops"

text \<open>The state a run of the submission ends in or waits in, and the calls it added.\<close>

fun run_state :: "'u run \<Rightarrow> 'u dialog_state" where
  "run_state (Completed st) = st"
| "run_state (Pending st) = st"

definition new_callbacks :: "'u dialog_state \<Rightarrow> 'u dialog_state \<Rightarrow> 'u callback list" where
  "new_callbacks st st' = drop (length (callbacks st)) (callbacks st')"

section \<open>Concrete inputs\<close>

text \<open>
  Stand-ins for the parameters, used only to run the programs on concrete inputs.
  \<open>Number_of_digits\<close> agrees with the builtin on the empty string (zero), on strings of
  ASCII decimal digits (their value, exact below \<open>2^53\<close>) and on strings of letters that
  spell no numeric literal (\<open>NaN\<close>); it is not applied to any other string.
  \<open>find_user\<close> gives the first user with the id when the number is finite and rejects
  otherwise. The environment \<open>example_env ev\<close> reads every body, verifies every payload to
  the event \<open>ev\<close>, rejects no read of the cache and no write, reads a short template, and
  stamps by appending a mark to the document.
\<close>

definition digit_value :: "char \<Rightarrow> nat option" where
  "digit_value c =
     (let code = (of_char c :: nat)
      in if 48 \<le> code \<and> code \<le> 57 then Some (code - 48) else None)"

fun decimal_value :: "string \<Rightarrow> nat \<Rightarrow> nat option" where
  "decimal_value [] acc = Some acc"
| "decimal_value (c # cs) acc =
     (case digit_value c of None \<Rightarrow> None | Some d \<Rightarrow> decimal_value cs (10 * acc + d))"

definition Number_of_digits :: "string \<Rightarrow> js_number" where
  "Number_of_digits s = (case decimal_value s 0 of None \<Rightarrow> NaN | Some n \<Rightarrow> Num (of_nat n))"

definition find_user :: "User list \<Rightarrow> js_number \<Rightarrow> js_error + User option" where
  "find_user us n =
     (case n of
        Num q \<Rightarrow> Inr (find (\<lambda>u. of_int (user_id u) = q) us)
      | _ \<Rightarrow> Inl (Error ''Invalid value provided''))"

definition example_env :: "event \<Rightarrow> handler_env" where
  "example_env ev =
     \<lparr>Number = Number_of_digits,
      NEXT_PRIVATE_STRIPE_WEBHOOK_SECRET = Some ''whsec_test'',
      buffer = (\<lambda>req. Inr (raw_body req)),
      constructEvent = (\<lambda>body sig secret. Inr ev),
      user_findFirst = find_user,
      redis_rejects = (\<lambda>key. None),
      prisma_rejects = (\<lambda>op. None),
      first_rejection_is_signature = True,
      readFileSync_base64 = (\<lambda>path. Inr ''JVBERi0x''),
      randomBytes_hex = (\<lambda>n. replicate (2 * n) CHR ''a''),
      new_Date = 1700000000,
      insertImageInPDF = (\<lambda>pdf img x y page. Inr (pdf @ ''+image '' @ img)),
      insertTextInPDF = (\<lambda>pdf str x y page. Inr (pdf @ ''+text '' @ str))\<rparr>"

text \<open>The same environment with a database that rejects every write.\<close>

definition unreachable_database_env :: "event \<Rightarrow> handler_env" where
  "unreachable_database_env ev =
     (example_env ev)\<lparr>prisma_rejects := (\<lambda>op. Some (Error ''Can not reach database server''))\<rparr>"

definition example_request :: request where
  "example_request = \<lparr>stripe_signature = Header_string ''t=1,v1=5257a8'', raw_body = ''{}''\<rparr>"

definition unsigned_request :: request where
  "unsigned_request = \<lparr>stripe_signature = Header_undefined, raw_body = ''{}''\<rparr>"

definition example_world :: world where
  "example_world =
     \<lparr>db_users =
        [\<lparr>user_id = 7, user_name = Some ''Ada'', user_email = ''ada@example.com''\<rparr>,
         \<lparr>user_id = 8, user_name = None, user_email = ''anon@example.com''\<rparr>],
      db_documents = [],
      db_recipients = [],
      db_fields = [],
      db_signatures = [],
      redis = [''signature:k1'' \<mapsto> ''data:image/png;base64,iVBOR''],
      calls = []\<rparr>"

definition checkout_event :: "string \<Rightarrow> (string \<rightharpoonup> string) \<Rightarrow> event" where
  "checkout_event cid md =
     \<lparr>event_type = ''checkout.session.completed'',
      data_object = \<lparr>client_reference_id = Some cid, metadata = Some md\<rparr>\<rparr>"

definition image_event :: event where
  "image_event =
     checkout_event ''7'' [''source'' \<mapsto> ''landing'', ''signatureDataUrl'' \<mapsto> ''k1'']"

definition text_event :: event where
  "text_event =
     checkout_event ''7'' [''source'' \<mapsto> ''landing'', ''signatureText'' \<mapsto> ''Ada L.'']"

definition nameless_event :: event where
  "nameless_event = checkout_event ''8'' [''source'' \<mapsto> ''landing'']"

definition stranger_landing_event :: event where
  "stranger_landing_event = checkout_event ''999'' [''source'' \<mapsto> ''landing'']"

definition stranger_app_event :: event where
  "stranger_app_event = checkout_event ''999'' [''source'' \<mapsto> ''app'']"

definition invoice_event :: event where
  "invoice_event =
     \<lparr>event_type = ''invoice.paid'',
      data_object = \<lparr>client_reference_id = None, metadata = None\<rparr>\<rparr>"

text \<open>A page environment in which user 7 is signed in and owns the document 42.\<close>

definition example_document :: Document where
  "example_document =
     \<lparr>document_title = ''Contract.pdf'', document_status = COMPLETED, document_userId = 7,
      document_document = ''JVBERi0x'', document_created = 1700000000, document_id = 42\<rparr>"

definition example_page_env :: page_env where
  "example_page_env =
     \<lparr>Number = Number_of_digits,
      getRequiredServerComponentSession =
        Inr \<lparr>user_id = 7, user_name = Some ''Ada'', user_email = ''ada@example.com''\<rparr>,
      getDocumentById =
        (\<lambda>n uid. if n = Num 42 \<and> uid = 7 then Inr (Some example_document)
                 else Inl (Error ''No Document found'')),
      getRecipientsForDocument = (\<lambda>n uid. Inr []),
      getFieldsForDocument = (\<lambda>n uid. Inr [])\<rparr>"

text \<open>
  A dialog whose callback accepts the token \<open>123456\<close> and throws on every other one, with a
  parser that gives every caught value the code \<open>UnknownError\<close>; \<open>ascii_toLowerCase\<close>
  agrees with the builtin on ASCII strings.
\<close>

definition ascii_toLowerCase :: "string \<Rightarrow> string" where
  "ascii_toLowerCase s =
     map (\<lambda>c. let code = (of_char c :: nat)
              in if 65 \<le> code \<and> code \<le> 90 then char_of (code + 32) else c) s"

definition example_dialog_env :: dialog_env where
  "example_dialog_env =
     \<lparr>parseError =
        (\<lambda>e. \<lparr>app_code = ''UnknownError'', app_message = (case e of Error m \<Rightarrow> m)\<rparr>),
      toLowerCase = ascii_toLowerCase\<rparr>"

definition example_props :: "char DocumentActionAuth2FAProps" where
  "example_props =
     \<lparr>actionTarget = None, actionVerb = None, dialog_open = True,
      onReauthFormSubmit =
        (\<lambda>a. if auth_token a = ''123456'' then Some (Inr ())
             else Some (Inl (Error ''Invalid token'')))\<rparr>"

definition example_context :: auth_context where
  "example_context = \<lparr>recipient_role = Other_RecipientRole, user_twoFactorEnabled = Some True\<rparr>"

definition example_state :: "string \<Rightarrow> char dialog_state" where
  "example_state tok =
     \<lparr>isCurrentlyAuthenticating = False, formErrorCode = None, form_token = tok,
      form_errors = [], callbacks = []\<rparr>"

section \<open>Lemmas on the webhook\<close>

subsection \<open>Fresh ids\<close>

lemma fold_max_bounds:
  "a \<le> fold max xs (a::int) \<and> (\<forall>x\<in>set xs. x \<le> fold max xs a)"
proof (induction xs arbitrary: a)
  case Nil
  then show ?case by simp
next
  case (Cons x xs)
  have "max x a \<le> fold max xs (max x a)" using Cons.IH by blast
  then show ?case using Cons.IH [of "max x a"] by auto
qed

lemma next_id_fresh: "next_id ids \<notin> set ids"
  using fold_max_bounds [of 0 ids] by (auto simp: next_id_def)

lemma update_fresh_row:
  "map (\<lambda>d. if document_id d = next_id (map document_id ds) then f d else d) ds = ds"
proof (rule map_idI)
  fix d assume "d \<in> set ds"
  then have "document_id d \<in> set (map document_id ds)" by simp
  then have "document_id d \<noteq> next_id (map document_id ds)"
    using next_id_fresh [of "map document_id ds"] by metis
  then show "(if document_id d = next_id (map document_id ds) then f d else d) = d" by simp
qed

subsection \<open>The log and the cache\<close>

lemma tables_log_call: "tables (log_call c w) = tables w"
  by (simp add: tables_def log_call_def)

lemma redis_log_call: "redis (log_call c w) = redis w"
  by (simp add: log_call_def)

lemma calls_log_call: "calls (log_call c w) = calls w @ [c]"
  by (simp add: log_call_def)

lemma spec_cached_image_nonempty: "spec_cached_image session cache = Some img \<Longrightarrow> img \<noteq> []"
  by (simp add: spec_cached_image_def split: option.splits if_splits)

lemma fst_fetch_returns:
  "cache_read_returns env session \<Longrightarrow>
   fst (fetch_signatureDataUrl env session w) =
     Inr (case spec_cached_image session (redis w) of None \<Rightarrow> [] | Some img \<Rightarrow> img)"
  by (auto simp: fetch_signatureDataUrl_def spec_cached_image_def redis_get_def truthy_def
      cache_read_returns_def split: option.splits)

lemma fst_fetch_rejects:
  "\<not> cache_read_returns env session \<Longrightarrow> \<exists>e. fst (fetch_signatureDataUrl env session w) = Inl e"
  by (auto simp: fetch_signatureDataUrl_def redis_get_def truthy_def
      cache_read_returns_def split: option.splits)

lemma tables_fetch_signatureDataUrl:
  "tables (snd (fetch_signatureDataUrl env session w)) = tables w"
  by (simp add: fetch_signatureDataUrl_def redis_get_def tables_log_call split: option.splits)

lemma redis_fetch_signatureDataUrl:
  "redis (snd (fetch_signatureDataUrl env session w)) = redis w"
  by (simp add: fetch_signatureDataUrl_def redis_get_def redis_log_call split: option.splits)

lemma calls_fetch_signatureDataUrl:
  "calls (snd (fetch_signatureDataUrl env session w)) =
     calls w @
     (case metadata_get session ''signatureDataUrl'' of
        None \<Rightarrow> []
      | Some key \<Rightarrow> if key = [] then [] else [Call_redis_get (''signature:'' @ key)])"
  by (simp add: fetch_signatureDataUrl_def redis_get_def calls_log_call truthy_def
      split: option.splits)

lemma or_empty_signatureText_of:
  "or_empty (signatureText_of session user) = spec_typed_text session user"
  by (simp add: or_empty_def signatureText_of_def or_else_def spec_typed_text_def truthy_def
      split: option.splits)

subsection \<open>The three creations\<close>

lemma create_rows_accepted:
  fixes env user template w1
  defines "did \<equiv> next_id (map document_id (db_documents w1))"
    and "rid \<equiv> next_id (map recipient_id (db_recipients w1))"
    and "fid \<equiv> next_id (map field_id (db_fields w1))"
  defines "D \<equiv> Document_data.extend (document_data env user template) \<lparr>document_id = did\<rparr>"
    and "R \<equiv> Recipient_data.extend (recipient_data env user did) \<lparr>recipient_id = rid\<rparr>"
    and "F \<equiv> Field_data.extend (field_data did rid) \<lparr>field_id = fid\<rparr>"
  assumes "accepted env (pledge_creates env user w1 template)"
  shows "create_rows env user template w1 =
     (Inr (D, R, F),
      w1\<lparr>db_documents := db_documents w1 @ [D],
         db_recipients := db_recipients w1 @ [R],
         db_fields := db_fields w1 @ [F]\<rparr>)"
proof -
  have a: "prisma_rejects env (Document_create (document_data env user template)) = None"
    "prisma_rejects env (Recipient_create (recipient_data env user did)) = None"
    "prisma_rejects env (Field_create (field_data did rid)) = None"
    using assms(7) by (simp_all add: accepted_def pledge_creates_def Let_def did_def rid_def)
  have d: "document_id D = did" and r: "recipient_id R = rid"
    by (simp_all add: D_def R_def Document_data.defs Recipient_data.defs)
  have 1: "prisma_document_create env (document_data env user template) w1 =
      (Inr D, w1\<lparr>db_documents := db_documents w1 @ [D]\<rparr>)"
    using a(1) by (simp add: prisma_document_create_def D_def did_def Let_def)
  have 2: "prisma_recipient_create env (recipient_data env user did)
        (w1\<lparr>db_documents := db_documents w1 @ [D]\<rparr>) =
      (Inr R, w1\<lparr>db_documents := db_documents w1 @ [D],
                  db_recipients := db_recipients w1 @ [R]\<rparr>)"
    using a(2) by (simp add: prisma_recipient_create_def R_def rid_def Let_def)
  have 3: "prisma_field_create env (field_data did rid)
        (w1\<lparr>db_documents := db_documents w1 @ [D],
            db_recipients := db_recipients w1 @ [R]\<rparr>) =
      (Inr F, w1\<lparr>db_documents := db_documents w1 @ [D],
                  db_recipients := db_recipients w1 @ [R],
                  db_fields := db_fields w1 @ [F]\<rparr>)"
    using a(3) by (simp add: prisma_field_create_def F_def fid_def Let_def)
  show ?thesis
    unfolding create_rows_def 1 by (simp add: d 2 r 3)
qed

lemma create_rows_rejected:
  assumes "\<not> accepted env (pledge_creates env user w1 template)"
  shows "\<exists>e. fst (create_rows env user template w1) = Inl e"
    and "db_signatures (snd (create_rows env user template w1)) = db_signatures w1"
proof -
  let ?did = "next_id (map document_id (db_documents w1))"
  let ?rid = "next_id (map recipient_id (db_recipients w1))"
  let ?D = "Document_data.extend (document_data env user template) \<lparr>document_id = ?did\<rparr>"
  let ?R = "Recipient_data.extend (recipient_data env user ?did) \<lparr>recipient_id = ?rid\<rparr>"
  have d: "document_id ?D = ?did" and r: "recipient_id ?R = ?rid"
    by (simp_all add: Document_data.defs Recipient_data.defs)
  consider
    (doc) e where "prisma_rejects env (Document_create (document_data env user template)) = Some e"
  | (rcp) e where "prisma_rejects env (Document_create (document_data env user template)) = None"
      "prisma_rejects env (Recipient_create (recipient_data env user ?did)) = Some e"
  | (fld) e where "prisma_rejects env (Document_create (document_data env user template)) = None"
      "prisma_rejects env (Recipient_create (recipient_data env user ?did)) = None"
      "prisma_rejects env (Field_create (field_data ?did ?rid)) = Some e"
    using assms
    by (cases "prisma_rejects env (Document_create (document_data env user template))";
        cases "prisma_rejects env (Recipient_create (recipient_data env user ?did))")
       (auto simp: accepted_def pledge_creates_def Let_def)
  then have "(\<exists>e. fst (create_rows env user template w1) = Inl e) \<and>
      db_signatures (snd (create_rows env user template w1)) = db_signatures w1"
  proof cases
    case doc
    then show ?thesis
      by (simp add: create_rows_def prisma_document_create_def)
  next
    case rcp
    have 1: "prisma_document_create env (document_data env user template) w1 =
        (Inr ?D, w1\<lparr>db_documents := db_documents w1 @ [?D]\<rparr>)"
      using rcp(1) by (simp add: prisma_document_create_def Let_def)
    show ?thesis
      unfolding create_rows_def 1 using rcp(2)
      by (simp add: d prisma_recipient_create_def)
  next
    case fld
    have 1: "prisma_document_create env (document_data env user template) w1 =
        (Inr ?D, w1\<lparr>db_documents := db_documents w1 @ [?D]\<rparr>)"
      using fld(1) by (simp add: prisma_document_create_def Let_def)
    have 2: "prisma_recipient_create env (recipient_data env user ?did)
          (w1\<lparr>db_documents := db_documents w1 @ [?D]\<rparr>) =
        (Inr ?R, w1\<lparr>db_documents := db_documents w1 @ [?D],
                    db_recipients := db_recipients w1 @ [?R]\<rparr>)"
      using fld(2) by (simp add: prisma_recipient_create_def Let_def)
    show ?thesis
      unfolding create_rows_def 1 using fld(3)
      by (simp add: d 2 r prisma_field_create_def)
  qed
  then show "\<exists>e. fst (create_rows env user template w1) = Inl e"
    and "db_signatures (snd (create_rows env user template w1)) = db_signatures w1"
    by simp_all
qed

subsection \<open>The final writes\<close>

lemma persist_signature_created:
  assumes "prisma_rejects env (Signature_create sd) = None"
  shows "db_signatures (snd (persist_signature env sd did pdf w5)) =
           db_signatures w5 @
           [Signature_data.extend sd
              \<lparr>signature_id = next_id (map signature_id (db_signatures w5))\<rparr>]"
    and "calls (snd (persist_signature env sd did pdf w5)) = calls w5"
  using assms
  by (simp_all add: persist_signature_def prisma_signature_create_def prisma_document_update_def
      Let_def split: option.splits)

lemma persist_signature_not_created:
  assumes "prisma_rejects env (Signature_create sd) = Some e"
  shows "db_signatures (snd (persist_signature env sd did pdf w5)) = db_signatures w5"
    and "\<exists>e'. fst (persist_signature env sd did pdf w5) = Some e'"
  using assms
  by (simp_all add: persist_signature_def prisma_signature_create_def prisma_document_update_def
      Let_def split: option.splits)

lemma persist_signature_None_iff:
  "fst (persist_signature env sd did pdf w5) = None \<longleftrightarrow>
     accepted env [Signature_create sd, Document_update did pdf]"
  by (auto simp: persist_signature_def prisma_signature_create_def prisma_document_update_def
      accepted_def Let_def split: option.splits)

lemma persist_signature_accepted:
  assumes "accepted env [Signature_create sd, Document_update did pdf]"
  shows "persist_signature env sd did pdf w5 =
     (None,
      w5\<lparr>db_signatures := db_signatures w5 @
            [Signature_data.extend sd
               \<lparr>signature_id = next_id (map signature_id (db_signatures w5))\<rparr>],
         db_documents :=
            map (\<lambda>d. if document_id d = did then d\<lparr>document_document := pdf\<rparr> else d)
              (db_documents w5)\<rparr>)"
  using assms
  by (simp add: persist_signature_def prisma_signature_create_def prisma_document_update_def
      accepted_def Let_def)


subsection \<open>The block that creates the pledge\<close>

lemma create_pledge_cache_rejected:
  assumes "\<not> cache_read_returns env session"
  shows "\<exists>e. fst (create_pledge env session user w0) = Some e"
    and "db_signatures (snd (create_pledge env session user w0)) = db_signatures w0"
proof -
  obtain r w1 where f: "fetch_signatureDataUrl env session w0 = (r, w1)" by force
  obtain e where r: "r = Inl e"
    using fst_fetch_rejects [OF assms, of w0] f by auto
  have "tables w1 = tables w0"
    using tables_fetch_signatureDataUrl [of env session w0] f by simp
  then have t: "db_signatures w1 = db_signatures w0" by (simp add: tables_def)
  show "\<exists>e. fst (create_pledge env session user w0) = Some e"
    and "db_signatures (snd (create_pledge env session user w0)) = db_signatures w0"
    unfolding create_pledge_def f r by (simp_all add: t)
qed

lemma create_pledge_no_template:
  assumes "readFileSync_base64 env ''./public/documenso-supporter-pledge.pdf'' = Inl e"
  shows "\<exists>e. fst (create_pledge env session user w0) = Some e"
    and "db_signatures (snd (create_pledge env session user w0)) = db_signatures w0"
proof -
  obtain r w1 where f: "fetch_signatureDataUrl env session w0 = (r, w1)" by force
  have "tables w1 = tables w0"
    using tables_fetch_signatureDataUrl [of env session w0] f by simp
  then have t: "db_signatures w1 = db_signatures w0" by (simp add: tables_def)
  show "\<exists>e. fst (create_pledge env session user w0) = Some e"
    and "db_signatures (snd (create_pledge env session user w0)) = db_signatures w0"
    unfolding create_pledge_def f using assms by (cases r; simp add: t)+
qed

lemma pledge_creates_cong:
  "tables w1 = tables w0 \<Longrightarrow> pledge_creates env user w1 template = pledge_creates env user w0 template"
  by (simp add: pledge_creates_def tables_def)

lemma create_pledge_creates_rejected:
  assumes c: "cache_read_returns env session"
    and tmpl: "readFileSync_base64 env ''./public/documenso-supporter-pledge.pdf'' = Inr template"
    and rej: "\<not> accepted env (pledge_creates env user w0 template)"
  shows "\<exists>e. fst (create_pledge env session user w0) = Some e"
    and "db_signatures (snd (create_pledge env session user w0)) = db_signatures w0"
proof -
  obtain r w1 where f: "fetch_signatureDataUrl env session w0 = (r, w1)" by force
  obtain u where r: "r = Inr u"
    using fst_fetch_returns [OF c, of w0] f by auto
  have tw: "tables w1 = tables w0"
    using tables_fetch_signatureDataUrl [of env session w0] f by simp
  then have t: "db_signatures w1 = db_signatures w0" by (simp add: tables_def)
  have rej1: "\<not> accepted env (pledge_creates env user w1 template)"
    using rej pledge_creates_cong [OF tw] by simp
  obtain cr w4 where cr: "create_rows env user template w1 = (cr, w4)" by force
  obtain e where e: "cr = Inl e" using create_rows_rejected(1) [OF rej1] cr by auto
  have s: "db_signatures w4 = db_signatures w1"
    using create_rows_rejected(2) [OF rej1] cr by simp
  show "\<exists>e. fst (create_pledge env session user w0) = Some e"
    and "db_signatures (snd (create_pledge env session user w0)) = db_signatures w0"
    unfolding create_pledge_def f r using tmpl by (simp_all add: cr e s t)
qed

lemma create_pledge_reaches_stamp:
  fixes env session user w0 template
  defines "w1 \<equiv> snd (fetch_signatureDataUrl env session w0)"
    and "cached \<equiv> spec_cached_image session (redis w0)"
    and "did \<equiv> next_id (map document_id (db_documents w0))"
    and "rid \<equiv> next_id (map recipient_id (db_recipients w0))"
    and "fid \<equiv> next_id (map field_id (db_fields w0))"
  defines "D \<equiv> Document_data.extend (document_data env user template) \<lparr>document_id = did\<rparr>"
    and "R \<equiv> Recipient_data.extend (recipient_data env user did) \<lparr>recipient_id = rid\<rparr>"
    and "F \<equiv> Field_data.extend (field_data did rid) \<lparr>field_id = fid\<rparr>"
  defines "w5 \<equiv> w1\<lparr>db_documents := db_documents w0 @ [D],
                    db_recipients := db_recipients w0 @ [R],
                    db_fields := db_fields w0 @ [F],
                    calls := calls w1 @
                      [case cached of
                         None \<Rightarrow> Call_insertTextInPDF template (spec_typed_text session user) 77 638 0
                       | Some img \<Rightarrow> Call_insertImageInPDF template img 77 638 0]\<rparr>"
  assumes c: "cache_read_returns env session"
    and tmpl: "readFileSync_base64 env ''./public/documenso-supporter-pledge.pdf'' = Inr template"
    and acc: "accepted env (pledge_creates env user w0 template)"
  shows "create_pledge env session user w0 =
     (case spec_stamp env session user (redis w0) template of
        Inl e \<Rightarrow> (Some e, w5)
      | Inr pdf \<Rightarrow>
          persist_signature env
            (signature_data fid rid (case cached of None \<Rightarrow> [] | Some img \<Rightarrow> img)
               (signatureText_of session user))
            did pdf w5)"
proof -
  obtain r w1' where f: "fetch_signatureDataUrl env session w0 = (r, w1')" by force
  have w1': "w1' = w1" using f by (simp add: w1_def)
  let ?u = "case cached of None \<Rightarrow> [] | Some img \<Rightarrow> img"
  have r: "r = Inr ?u"
    using fst_fetch_returns [OF c, of w0] f by (simp add: cached_def)
  have tr: "truthy ?u \<longleftrightarrow> cached \<noteq> None"
    using spec_cached_image_nonempty [of session "redis w0"]
    by (auto simp: truthy_def cached_def split: option.splits)
  have tw: "tables w1 = tables w0"
    unfolding w1_def by (rule tables_fetch_signatureDataUrl)
  then have t: "db_documents w1 = db_documents w0" "db_recipients w1 = db_recipients w0"
      "db_fields w1 = db_fields w0"
    by (simp_all add: tables_def)
  have acc1: "accepted env (pledge_creates env user w1 template)"
    using acc pledge_creates_cong [OF tw] by simp
  note cr = create_rows_accepted [OF acc1, unfolded t, folded did_def rid_def fid_def,
      folded D_def R_def F_def]
  have D: "document_document D = template" "document_id D = did"
    by (simp_all add: D_def document_data_def Document_data.defs)
  have R: "recipient_id R = rid"
    by (simp add: R_def Recipient_data.defs)
  have F: "field_positionX F = 77" "field_positionY F = 638" "field_page F = 0" "field_id F = fid"
    by (simp_all add: F_def field_data_def Field_data.defs)
  have st: "stamp_document env D F ?u (signatureText_of session user)
       (w1\<lparr>db_documents := db_documents w0 @ [D],
           db_recipients := db_recipients w0 @ [R],
           db_fields := db_fields w0 @ [F]\<rparr>) =
     (spec_stamp env session user (redis w0) template, w5)"
  proof (cases cached)
    case None
    then show ?thesis
      using tr
      by (simp add: stamp_document_def D F call_insertTextInPDF_def log_call_def w5_def
          spec_stamp_def cached_def [symmetric] or_empty_signatureText_of)
  next
    case (Some img)
    then show ?thesis
      using tr
      by (simp add: stamp_document_def D F call_insertImageInPDF_def log_call_def w5_def
          spec_stamp_def cached_def [symmetric])
  qed
  show ?thesis
    unfolding create_pledge_def f r w1' using tmpl
    by (simp add: cr st D R F split: sum.splits)
qed


lemma create_pledge_stamp_failed:
  assumes "cache_read_returns env session"
    and "readFileSync_base64 env ''./public/documenso-supporter-pledge.pdf'' = Inr template"
    and "accepted env (pledge_creates env user w0 template)"
    and "spec_stamp env session user (redis w0) template = Inl e"
  shows "fst (create_pledge env session user w0) = Some e"
    and "db_signatures (snd (create_pledge env session user w0)) = db_signatures w0"
proof -
  have "tables (snd (fetch_signatureDataUrl env session w0)) = tables w0"
    by (rule tables_fetch_signatureDataUrl)
  then have t: "db_signatures (snd (fetch_signatureDataUrl env session w0)) = db_signatures w0"
    by (simp add: tables_def)
  show "fst (create_pledge env session user w0) = Some e"
    and "db_signatures (snd (create_pledge env session user w0)) = db_signatures w0"
    unfolding create_pledge_reaches_stamp [OF assms(1-3)] using assms(4) by (simp_all add: t)
qed

lemma create_pledge_completes_iff:
  "fst (create_pledge env session user w0) = None \<longleftrightarrow>
     cache_read_returns env session \<and>
     (\<exists>template pdf.
        readFileSync_base64 env ''./public/documenso-supporter-pledge.pdf'' = Inr template \<and>
        spec_stamp env session user (redis w0) template = Inr pdf \<and>
        accepted env
          (pledge_creates env user w0 template @
           [pledge_signature_create session user w0, pledge_document_update w0 pdf]))"
proof (cases "cache_read_returns env session")
  case False
  then show ?thesis using create_pledge_cache_rejected(1) [OF False, of user w0] by auto
next
  case c: True
  show ?thesis
  proof (cases "readFileSync_base64 env ''./public/documenso-supporter-pledge.pdf''")
    case (Inl e)
    then show ?thesis using create_pledge_no_template(1) [OF Inl, of session user w0] by auto
  next
    case tmpl: (Inr template)
    show ?thesis
    proof (cases "accepted env (pledge_creates env user w0 template)")
      case False
      then show ?thesis
        using create_pledge_creates_rejected(1) [OF c tmpl False] tmpl
        by (auto simp: accepted_def)
    next
      case acc: True
      show ?thesis
      proof (cases "spec_stamp env session user (redis w0) template")
        case (Inl e)
        then show ?thesis
          using create_pledge_stamp_failed(1) [OF c tmpl acc Inl] tmpl by auto
      next
        case (Inr pdf)
        then show ?thesis
          unfolding create_pledge_reaches_stamp [OF c tmpl acc]
          using c tmpl acc
          by (simp add: persist_signature_None_iff accepted_def pledge_signature_create_def
              pledge_document_update_def)
      qed
    qed
  qed
qed

lemma create_pledge_signature:
  fixes env session user w0 template pdf
  defines "w' \<equiv> snd (create_pledge env session user w0)"
    and "cached \<equiv> spec_cached_image session (redis w0)"
  assumes c: "cache_read_returns env session"
    and tmpl: "readFileSync_base64 env ''./public/documenso-supporter-pledge.pdf'' = Inr template"
    and stamp: "spec_stamp env session user (redis w0) template = Inr pdf"
    and acc: "accepted env (pledge_creates env user w0 template @
                [pledge_signature_create session user w0])"
  shows "db_signatures w' = db_signatures w0 @
          [\<lparr>signature_fieldId = next_id (map field_id (db_fields w0)),
            signature_recipientId = next_id (map recipient_id (db_recipients w0)),
            signatureImageAsBase64 = cached,
            typedSignature =
              (case cached of None \<Rightarrow> signatureText_of session user | Some _ \<Rightarrow> Some []),
            signature_id = next_id (map signature_id (db_signatures w0))\<rparr>]"
    and "calls w' = calls (snd (fetch_signatureDataUrl env session w0)) @
          [case cached of
             None \<Rightarrow> Call_insertTextInPDF template (spec_typed_text session user) 77 638 0
           | Some img \<Rightarrow> Call_insertImageInPDF template img 77 638 0]"
proof -
  have a: "accepted env (pledge_creates env user w0 template)"
    and s: "prisma_rejects env
        (Signature_create
          (signature_data (next_id (map field_id (db_fields w0)))
             (next_id (map recipient_id (db_recipients w0)))
             (case cached of None \<Rightarrow> [] | Some img \<Rightarrow> img)
             (signatureText_of session user))) = None"
    using acc by (simp_all add: accepted_def pledge_signature_create_def cached_def)
  have "tables (snd (fetch_signatureDataUrl env session w0)) = tables w0"
    by (rule tables_fetch_signatureDataUrl)
  then have t: "db_signatures (snd (fetch_signatureDataUrl env session w0)) = db_signatures w0"
    by (simp add: tables_def)
  have tr: "truthy (case cached of None \<Rightarrow> [] | Some img \<Rightarrow> img) \<longleftrightarrow> cached \<noteq> None"
    using spec_cached_image_nonempty [of session "redis w0"]
    by (auto simp: truthy_def cached_def split: option.splits)
  show "db_signatures w' = db_signatures w0 @
          [\<lparr>signature_fieldId = next_id (map field_id (db_fields w0)),
            signature_recipientId = next_id (map recipient_id (db_recipients w0)),
            signatureImageAsBase64 = cached,
            typedSignature =
              (case cached of None \<Rightarrow> signatureText_of session user | Some _ \<Rightarrow> Some []),
            signature_id = next_id (map signature_id (db_signatures w0))\<rparr>]"
    unfolding w'_def create_pledge_reaches_stamp [OF c tmpl a] stamp sum.case
      cached_def [symmetric] persist_signature_created(1) [OF s]
    using tr
    by (simp add: t signature_data_def Signature_data.defs split: option.splits)
  show "calls w' = calls (snd (fetch_signatureDataUrl env session w0)) @
          [case cached of
             None \<Rightarrow> Call_insertTextInPDF template (spec_typed_text session user) 77 638 0
           | Some img \<Rightarrow> Call_insertImageInPDF template img 77 638 0]"
    unfolding w'_def create_pledge_reaches_stamp [OF c tmpl a] stamp sum.case
      cached_def [symmetric] persist_signature_created(2) [OF s]
    by simp
qed

lemma create_pledge_signature_rejected:
  assumes c: "cache_read_returns env session"
    and tmpl: "readFileSync_base64 env ''./public/documenso-supporter-pledge.pdf'' = Inr template"
    and stamp: "spec_stamp env session user (redis w0) template = Inr pdf"
    and a: "accepted env (pledge_creates env user w0 template)"
    and rej: "\<not> accepted env [pledge_signature_create session user w0]"
  shows "db_signatures (snd (create_pledge env session user w0)) = db_signatures w0"
proof -
  obtain e where s: "prisma_rejects env
        (Signature_create
          (signature_data (next_id (map field_id (db_fields w0)))
             (next_id (map recipient_id (db_recipients w0)))
             (case spec_cached_image session (redis w0) of None \<Rightarrow> [] | Some img \<Rightarrow> img)
             (signatureText_of session user))) = Some e"
    using rej by (auto simp: accepted_def pledge_signature_create_def)
  have "tables (snd (fetch_signatureDataUrl env session w0)) = tables w0"
    by (rule tables_fetch_signatureDataUrl)
  then have t: "db_signatures (snd (fetch_signatureDataUrl env session w0)) = db_signatures w0"
    by (simp add: tables_def)
  show ?thesis
    unfolding create_pledge_reaches_stamp [OF c tmpl a] stamp sum.case
      persist_signature_not_created(1) [OF s]
    by (simp add: t)
qed

lemma create_pledge_stamped:
  fixes env session user w0 template pdf
  defines "w1 \<equiv> snd (fetch_signatureDataUrl env session w0)"
    and "cached \<equiv> spec_cached_image session (redis w0)"
    and "did \<equiv> next_id (map document_id (db_documents w0))"
    and "rid \<equiv> next_id (map recipient_id (db_recipients w0))"
    and "fid \<equiv> next_id (map field_id (db_fields w0))"
    and "sid \<equiv> next_id (map signature_id (db_signatures w0))"
  assumes c: "cache_read_returns env session"
    and tmpl: "readFileSync_base64 env ''./public/documenso-supporter-pledge.pdf'' = Inr template"
    and stamp: "spec_stamp env session user (redis w0) template = Inr pdf"
    and acc: "accepted env
          (pledge_creates env user w0 template @
           [pledge_signature_create session user w0, pledge_document_update w0 pdf])"
  shows "create_pledge env session user w0 =
     (None, w1\<lparr>
        db_documents := db_documents w0 @
          [\<lparr>document_title = ''Documenso Supporter Pledge.pdf'', document_status = COMPLETED,
            document_userId = user_id user, document_document = pdf,
            document_created = new_Date env, document_id = did\<rparr>],
        db_recipients := db_recipients w0 @
          [\<lparr>recipient_name = or_empty (user_name user), recipient_email = user_email user,
            recipient_token = randomBytes_hex env 16, recipient_signedAt = Some (new_Date env),
            recipient_readStatus = OPENED, recipient_sendStatus = SENT,
            recipient_signingStatus = SIGNED, recipient_documentId = did, recipient_id = rid\<rparr>],
        db_fields := db_fields w0 @
          [\<lparr>field_documentId = did, field_recipientId = rid, field_type = SIGNATURE,
            field_page = 0, field_positionX = 77, field_positionY = 638,
            field_inserted = False, field_customText = [], field_id = fid\<rparr>],
        db_signatures := db_signatures w0 @
          [\<lparr>signature_fieldId = fid, signature_recipientId = rid,
            signatureImageAsBase64 = cached,
            typedSignature =
              (case cached of None \<Rightarrow> signatureText_of session user | Some _ \<Rightarrow> Some []),
            signature_id = sid\<rparr>],
        calls := calls w1 @
          [case cached of
             None \<Rightarrow> Call_insertTextInPDF template (spec_typed_text session user) 77 638 0
           | Some img \<Rightarrow> Call_insertImageInPDF template img 77 638 0]\<rparr>)"
proof -
  have a: "accepted env (pledge_creates env user w0 template)"
    and p: "accepted env
        [Signature_create
          (signature_data fid rid (case cached of None \<Rightarrow> [] | Some img \<Rightarrow> img)
             (signatureText_of session user)),
         Document_update did pdf]"
    using acc
    by (simp_all add: accepted_def pledge_signature_create_def pledge_document_update_def
        cached_def fid_def rid_def did_def)
  have "tables w1 = tables w0"
    unfolding w1_def by (rule tables_fetch_signatureDataUrl)
  then have t: "db_signatures w1 = db_signatures w0" by (simp add: tables_def)
  have tr: "truthy (case cached of None \<Rightarrow> [] | Some img \<Rightarrow> img) \<longleftrightarrow> cached \<noteq> None"
    using spec_cached_image_nonempty [of session "redis w0"]
    by (auto simp: truthy_def cached_def split: option.splits)
  have fresh: "map (\<lambda>d. if document_id d = did then d\<lparr>document_document := pdf\<rparr> else d)
      (db_documents w0) = db_documents w0"
    unfolding did_def by (rule update_fresh_row)
  show ?thesis
    unfolding create_pledge_reaches_stamp [OF c tmpl a] stamp sum.case
      cached_def [symmetric] fid_def [symmetric] rid_def [symmetric] did_def [symmetric]
      w1_def [symmetric] persist_signature_accepted [OF p]
    using tr
    by (simp add: sid_def t fresh
        document_data_def recipient_data_def field_data_def signature_data_def
        Document_data.defs Recipient_data.defs Field_data.defs Signature_data.defs
        split: option.splits)
qed


subsection \<open>The branches of the handler\<close>

lemma pledge_writes_log_call:
  "pledge_creates env user (log_call c w) template = pledge_creates env user w template"
  "pledge_signature_create session user (log_call c w) = pledge_signature_create session user w"
  "pledge_document_update (log_call c w) pdf = pledge_document_update w pdf"
  by (simp_all add: pledge_creates_def pledge_signature_create_def pledge_document_update_def
      log_call_def)

lemma handler_unsigned:
  "\<not> truthy (request_sig req) \<Longrightarrow>
   handler env req w =
     (Responded \<lparr>status = 400, success = False, message = ''No signature found in request''\<rparr>, w)"
  by (simp add: handler_def)

lemma handler_unverified:
  assumes "truthy (request_sig req)" and "\<And>ev. \<not> verified_event env req ev"
  shows "\<exists>e. handler env req w = (Threw e, w)"
proof (cases "buffer env req")
  case (Inl e)
  then show ?thesis using assms(1) by (simp add: handler_def)
next
  case (Inr body)
  show ?thesis
  proof (cases "constructEvent env body (request_sig req) (NEXT_PRIVATE_STRIPE_WEBHOOK_SECRET env)")
    case (Inl e)
    then show ?thesis using assms(1) Inr by (simp add: handler_def)
  next
    case ev: (Inr ev)
    then have "verified_event env req ev" using assms(1) Inr by (simp add: verified_event_def)
    then show ?thesis using assms(2) by blast
  qed
qed

lemma handler_unhandled_type:
  "verified_event env req ev \<Longrightarrow> \<not> checkout_completed ev \<Longrightarrow>
   handler env req w =
     (Responded \<lparr>status = 400, success = False, message = ''Unhandled webhook event''\<rparr>, w)"
  by (auto simp: handler_def verified_event_def checkout_completed_def split: sum.splits)

lemma handler_other_source:
  "verified_event env req ev \<Longrightarrow> checkout_completed ev \<Longrightarrow> \<not> from_landing ev \<Longrightarrow>
   handler env req w =
     (Responded \<lparr>status = 200, success = True, message = ''Webhook received''\<rparr>, w)"
  by (auto simp: handler_def verified_event_def checkout_completed_def from_landing_def
      split: sum.splits)

lemma handler_landing:
  "verified_event env req ev \<Longrightarrow> checkout_completed ev \<Longrightarrow> from_landing ev \<Longrightarrow>
   handler env req w =
     (case landing_checkout env (data_object ev) w of
        (Some out, w') \<Rightarrow> (out, w')
      | (None, w') \<Rightarrow>
          (Responded \<lparr>status = 200, success = True, message = ''Webhook received''\<rparr>, w'))"
  by (auto simp: handler_def verified_event_def checkout_completed_def from_landing_def Let_def
      split: prod.splits sum.splits)

lemma handler_lookup_threw:
  "verified_event env req ev \<Longrightarrow> checkout_completed ev \<Longrightarrow> from_landing ev \<Longrightarrow>
   paying_user env w ev = Inl e \<Longrightarrow>
   handler env req w = (Threw e, log_call (Call_user_findFirst (reference_number env ev)) w)"
  by (simp add: handler_landing landing_checkout_def prisma_user_findFirst_def
      paying_user_def reference_number_def)

lemma handler_no_user:
  "verified_event env req ev \<Longrightarrow> checkout_completed ev \<Longrightarrow> from_landing ev \<Longrightarrow>
   paying_user env w ev = Inr None \<Longrightarrow>
   handler env req w =
     (Responded \<lparr>status = 500, success = False, message = ''User not found''\<rparr>,
      log_call (Call_user_findFirst (reference_number env ev)) w)"
  by (simp add: handler_landing landing_checkout_def prisma_user_findFirst_def
      paying_user_def reference_number_def)

lemma handler_user:
  "verified_event env req ev \<Longrightarrow> checkout_completed ev \<Longrightarrow> from_landing ev \<Longrightarrow>
   paying_user env w ev = Inr (Some user) \<Longrightarrow>
   handler env req w =
     (case create_pledge env (data_object ev) user
             (log_call (Call_user_findFirst (reference_number env ev)) w) of
        (Some e, w') \<Rightarrow> (Threw e, w')
      | (None, w') \<Rightarrow>
          (Responded \<lparr>status = 200, success = True, message = ''Webhook received''\<rparr>, w'))"
  by (simp add: handler_landing landing_checkout_def prisma_user_findFirst_def
      paying_user_def reference_number_def split: prod.splits option.splits)

lemma handler_user_answer:
  assumes "verified_event env req ev" "checkout_completed ev" "from_landing ev"
    and "paying_user env w ev = Inr (Some user)"
  shows "(\<exists>r. fst (handler env req w) = Responded r \<and> status r = 200) \<longleftrightarrow>
         fst (create_pledge env (data_object ev) user
                (log_call (Call_user_findFirst (reference_number env ev)) w)) = None"
    and "snd (handler env req w) =
         snd (create_pledge env (data_object ev) user
                (log_call (Call_user_findFirst (reference_number env ev)) w))"
  using handler_user [OF assms]
  by (auto split: prod.splits option.splits)

lemma handler_stamped:
  fixes env req w ev user template pdf
  defines "w' \<equiv> snd (handler env req w)"
    and "cached \<equiv> spec_cached_image (data_object ev) (redis w)"
    and "did \<equiv> next_id (map document_id (db_documents w))"
    and "rid \<equiv> next_id (map recipient_id (db_recipients w))"
    and "fid \<equiv> next_id (map field_id (db_fields w))"
    and "sid \<equiv> next_id (map signature_id (db_signatures w))"
  assumes "verified_event env req ev" "checkout_completed ev" "from_landing ev"
    and "paying_user env w ev = Inr (Some user)"
    and "cache_read_returns env (data_object ev)"
    and "readFileSync_base64 env ''./public/documenso-supporter-pledge.pdf'' = Inr template"
    and "spec_stamp env (data_object ev) user (redis w) template = Inr pdf"
    and "accepted env
          (pledge_creates env user w template @
           [pledge_signature_create (data_object ev) user w, pledge_document_update w pdf])"
  shows "fst (handler env req w) =
           Responded \<lparr>status = 200, success = True, message = ''Webhook received''\<rparr>"
    and "db_users w' = db_users w"
    and "db_documents w' = db_documents w @
          [\<lparr>document_title = ''Documenso Supporter Pledge.pdf'', document_status = COMPLETED,
            document_userId = user_id user, document_document = pdf,
            document_created = new_Date env, document_id = did\<rparr>]"
    and "db_recipients w' = db_recipients w @
          [\<lparr>recipient_name = or_empty (user_name user), recipient_email = user_email user,
            recipient_token = randomBytes_hex env 16, recipient_signedAt = Some (new_Date env),
            recipient_readStatus = OPENED, recipient_sendStatus = SENT,
            recipient_signingStatus = SIGNED, recipient_documentId = did, recipient_id = rid\<rparr>]"
    and "db_fields w' = db_fields w @
          [\<lparr>field_documentId = did, field_recipientId = rid, field_type = SIGNATURE,
            field_page = 0, field_positionX = 77, field_positionY = 638,
            field_inserted = False, field_customText = [], field_id = fid\<rparr>]"
    and "db_signatures w' = db_signatures w @
          [\<lparr>signature_fieldId = fid, signature_recipientId = rid,
            signatureImageAsBase64 = cached,
            typedSignature =
              (case cached of None \<Rightarrow> signatureText_of (data_object ev) user
               | Some _ \<Rightarrow> Some []),
            signature_id = sid\<rparr>]"
    and "redis w' = redis w"
    and "calls w' = calls w @ [Call_user_findFirst (reference_number env ev)] @
          (case metadata_get (data_object ev) ''signatureDataUrl'' of
             None \<Rightarrow> []
           | Some key \<Rightarrow> if key = [] then [] else [Call_redis_get (''signature:'' @ key)]) @
          [case cached of
             None \<Rightarrow> Call_insertTextInPDF template (spec_typed_text (data_object ev) user) 77 638 0
           | Some img \<Rightarrow> Call_insertImageInPDF template img 77 638 0]"
proof -
  let ?w0 = "log_call (Call_user_findFirst (reference_number env ev)) w"
  let ?w1 = "snd (fetch_signatureDataUrl env (data_object ev) ?w0)"
  have r0: "redis ?w0 = redis w" by (rule redis_log_call)
  have t0: "db_users ?w0 = db_users w" "db_documents ?w0 = db_documents w"
    "db_recipients ?w0 = db_recipients w" "db_fields ?w0 = db_fields w"
    "db_signatures ?w0 = db_signatures w"
    using tables_log_call [of "Call_user_findFirst (reference_number env ev)" w]
    by (simp_all add: tables_def)
  have u1: "db_users ?w1 = db_users w"
    using tables_fetch_signatureDataUrl [of env "data_object ev" ?w0] t0 by (simp add: tables_def)
  have r1: "redis ?w1 = redis w"
    using redis_fetch_signatureDataUrl [of env "data_object ev" ?w0] r0 by simp
  have c1: "calls ?w1 = calls w @ [Call_user_findFirst (reference_number env ev)] @
          (case metadata_get (data_object ev) ''signatureDataUrl'' of
             None \<Rightarrow> []
           | Some key \<Rightarrow> if key = [] then [] else [Call_redis_get (''signature:'' @ key)])"
    using calls_fetch_signatureDataUrl [of env "data_object ev" ?w0]
    by (simp add: calls_log_call)
  have stamp: "spec_stamp env (data_object ev) user (redis ?w0) template = Inr pdf"
    using assms(13) r0 by simp
  have acc: "accepted env
          (pledge_creates env user ?w0 template @
           [pledge_signature_create (data_object ev) user ?w0, pledge_document_update ?w0 pdf])"
    using assms(14) by (simp add: pledge_writes_log_call)
  note cp = create_pledge_stamped [OF assms(11,12) stamp acc, unfolded r0 t0]
  have h: "handler env req w =
      (Responded \<lparr>status = 200, success = True, message = ''Webhook received''\<rparr>,
       snd (create_pledge env (data_object ev) user ?w0))"
    using handler_user [OF assms(7-10)] cp by simp
  show "fst (handler env req w) =
           Responded \<lparr>status = 200, success = True, message = ''Webhook received''\<rparr>"
    using h by simp
  have w': "w' = snd (create_pledge env (data_object ev) user ?w0)"
    using h by (simp add: w'_def)
  show "db_users w' = db_users w" unfolding w' cp by (simp add: u1)
  show "redis w' = redis w" unfolding w' cp by (simp add: r1)
  show "db_documents w' = db_documents w @
          [\<lparr>document_title = ''Documenso Supporter Pledge.pdf'', document_status = COMPLETED,
            document_userId = user_id user, document_document = pdf,
            document_created = new_Date env, document_id = did\<rparr>]"
    unfolding w' cp by (simp add: did_def)
  show "db_recipients w' = db_recipients w @
          [\<lparr>recipient_name = or_empty (user_name user), recipient_email = user_email user,
            recipient_token = randomBytes_hex env 16, recipient_signedAt = Some (new_Date env),
            recipient_readStatus = OPENED, recipient_sendStatus = SENT,
            recipient_signingStatus = SIGNED, recipient_documentId = did, recipient_id = rid\<rparr>]"
    unfolding w' cp by (simp add: did_def rid_def)
  show "db_fields w' = db_fields w @
          [\<lparr>field_documentId = did, field_recipientId = rid, field_type = SIGNATURE,
            field_page = 0, field_positionX = 77, field_positionY = 638,
            field_inserted = False, field_customText = [], field_id = fid\<rparr>]"
    unfolding w' cp by (simp add: did_def rid_def fid_def)
  show "db_signatures w' = db_signatures w @
          [\<lparr>signature_fieldId = fid, signature_recipientId = rid,
            signatureImageAsBase64 = cached,
            typedSignature =
              (case cached of None \<Rightarrow> signatureText_of (data_object ev) user
               | Some _ \<Rightarrow> Some []),
            signature_id = sid\<rparr>]"
    unfolding w' cp by (simp add: rid_def fid_def sid_def cached_def)
  show "calls w' = calls w @ [Call_user_findFirst (reference_number env ev)] @
          (case metadata_get (data_object ev) ''signatureDataUrl'' of
             None \<Rightarrow> []
           | Some key \<Rightarrow> if key = [] then [] else [Call_redis_get (''signature:'' @ key)]) @
          [case cached of
             None \<Rightarrow> Call_insertTextInPDF template (spec_typed_text (data_object ev) user) 77 638 0
           | Some img \<Rightarrow> Call_insertImageInPDF template img 77 638 0]"
    unfolding w' cp by (simp add: c1 cached_def)
qed

lemma handler_signature_created:
  fixes env req w ev user template pdf
  defines "w' \<equiv> snd (handler env req w)"
    and "cached \<equiv> spec_cached_image (data_object ev) (redis w)"
  assumes "verified_event env req ev" "checkout_completed ev" "from_landing ev"
    and "paying_user env w ev = Inr (Some user)"
    and "cache_read_returns env (data_object ev)"
    and "readFileSync_base64 env ''./public/documenso-supporter-pledge.pdf'' = Inr template"
    and "spec_stamp env (data_object ev) user (redis w) template = Inr pdf"
    and "accepted env
          (pledge_creates env user w template @ [pledge_signature_create (data_object ev) user w])"
  shows "db_signatures w' = db_signatures w @
          [\<lparr>signature_fieldId = next_id (map field_id (db_fields w)),
            signature_recipientId = next_id (map recipient_id (db_recipients w)),
            signatureImageAsBase64 = cached,
            typedSignature =
              (case cached of None \<Rightarrow> signatureText_of (data_object ev) user
               | Some _ \<Rightarrow> Some []),
            signature_id = next_id (map signature_id (db_signatures w))\<rparr>]"
    and "calls w' = calls w @ [Call_user_findFirst (reference_number env ev)] @
          (case metadata_get (data_object ev) ''signatureDataUrl'' of
             None \<Rightarrow> []
           | Some key \<Rightarrow> if key = [] then [] else [Call_redis_get (''signature:'' @ key)]) @
          [case cached of
             None \<Rightarrow> Call_insertTextInPDF template (spec_typed_text (data_object ev) user) 77 638 0
           | Some img \<Rightarrow> Call_insertImageInPDF template img 77 638 0]"
proof -
  let ?w0 = "log_call (Call_user_findFirst (reference_number env ev)) w"
  have r0: "redis ?w0 = redis w" by (rule redis_log_call)
  have t0: "db_recipients ?w0 = db_recipients w" "db_fields ?w0 = db_fields w"
    "db_signatures ?w0 = db_signatures w"
    using tables_log_call [of "Call_user_findFirst (reference_number env ev)" w]
    by (simp_all add: tables_def)
  have c1: "calls (snd (fetch_signatureDataUrl env (data_object ev) ?w0)) =
          calls w @ [Call_user_findFirst (reference_number env ev)] @
          (case metadata_get (data_object ev) ''signatureDataUrl'' of
             None \<Rightarrow> []
           | Some key \<Rightarrow> if key = [] then [] else [Call_redis_get (''signature:'' @ key)])"
    using calls_fetch_signatureDataUrl [of env "data_object ev" ?w0]
    by (simp add: calls_log_call)
  have stamp: "spec_stamp env (data_object ev) user (redis ?w0) template = Inr pdf"
    using assms(9) r0 by simp
  have acc: "accepted env
          (pledge_creates env user ?w0 template @
           [pledge_signature_create (data_object ev) user ?w0])"
    using assms(10) by (simp add: pledge_writes_log_call)
  note cp = create_pledge_signature [OF assms(7,8) stamp acc, unfolded r0 t0 c1]
  have w': "w' = snd (create_pledge env (data_object ev) user ?w0)"
    unfolding w'_def by (rule handler_user_answer(2) [OF assms(3-6)])
  show "db_signatures w' = db_signatures w @
          [\<lparr>signature_fieldId = next_id (map field_id (db_fields w)),
            signature_recipientId = next_id (map recipient_id (db_recipients w)),
            signatureImageAsBase64 = cached,
            typedSignature =
              (case cached of None \<Rightarrow> signatureText_of (data_object ev) user
               | Some _ \<Rightarrow> Some []),
            signature_id = next_id (map signature_id (db_signatures w))\<rparr>]"
    unfolding w' cached_def by (rule cp(1))
  show "calls w' = calls w @ [Call_user_findFirst (reference_number env ev)] @
          (case metadata_get (data_object ev) ''signatureDataUrl'' of
             None \<Rightarrow> []
           | Some key \<Rightarrow> if key = [] then [] else [Call_redis_get (''signature:'' @ key)]) @
          [case cached of
             None \<Rightarrow> Call_insertTextInPDF template (spec_typed_text (data_object ev) user) 77 638 0
           | Some img \<Rightarrow> Call_insertImageInPDF template img 77 638 0]"
    unfolding w' cached_def using cp(2) by simp
qed

lemma handler_landing_handled:
  assumes v: "verified_event env req ev" "checkout_completed ev" "from_landing ev"
    and ok: "fst (handler env req w) = Responded r" "status r = 200"
  shows "\<exists>user template pdf.
           paying_user env w ev = Inr (Some user) \<and>
           cache_read_returns env (data_object ev) \<and>
           readFileSync_base64 env ''./public/documenso-supporter-pledge.pdf'' = Inr template \<and>
           spec_stamp env (data_object ev) user (redis w) template = Inr pdf \<and>
           accepted env
             (pledge_creates env user w template @
              [pledge_signature_create (data_object ev) user w, pledge_document_update w pdf])"
proof (cases "paying_user env w ev")
  case (Inl e)
  then show ?thesis using handler_lookup_threw [OF v] ok by simp
next
  case (Inr found)
  show ?thesis
  proof (cases found)
    case None
    then show ?thesis using Inr handler_no_user [OF v] ok by auto
  next
    case (Some user)
    then have u: "paying_user env w ev = Inr (Some user)" using Inr by simp
    have "fst (create_pledge env (data_object ev) user
                (log_call (Call_user_findFirst (reference_number env ev)) w)) = None"
      using handler_user_answer(1) [OF v u] ok by blast
    then show ?thesis
      using u by (simp add: create_pledge_completes_iff redis_log_call pledge_writes_log_call)
  qed
qed

subsection \<open>The handler on the concrete inputs\<close>

lemma example_verified: "verified_event (example_env ev) example_request ev"
  by (simp add: verified_event_def example_env_def example_request_def request_sig_def truthy_def)

lemma example_completed:
  "checkout_completed (checkout_event cid md)"
  by (simp add: checkout_completed_def checkout_event_def)

lemma example_from_landing:
  "from_landing (checkout_event cid md) \<longleftrightarrow> md ''source'' = Some ''landing''"
  by (simp add: from_landing_def checkout_event_def metadata_get_def)

lemma example_reference_number:
  "reference_number (example_env ev') (checkout_event cid md) = Number_of_digits cid"
  by (simp add: reference_number_def example_env_def checkout_event_def Number_nullable_def)

lemma Number_of_digits_examples:
  "Number_of_digits ''7'' = Num 7" "Number_of_digits ''8'' = Num 8"
  "Number_of_digits ''999'' = Num 999" "Number_of_digits ''abc'' = NaN"
  "Number_of_digits [] = Num 0" "Number_of_digits ''0'' = Num 0"
  "Number_of_digits ''42'' = Num 42"
  by (simp_all add: Number_of_digits_def digit_value_def)

lemma example_paying_user:
  "paying_user (example_env ev') example_world (checkout_event ''7'' md) =
     Inr (Some \<lparr>user_id = 7, user_name = Some ''Ada'', user_email = ''ada@example.com''\<rparr>)"
  "paying_user (example_env ev') example_world (checkout_event ''8'' md) =
     Inr (Some \<lparr>user_id = 8, user_name = None, user_email = ''anon@example.com''\<rparr>)"
  "paying_user (example_env ev') example_world (checkout_event ''999'' md) = Inr None"
  unfolding paying_user_def example_reference_number Number_of_digits_examples
  by (simp_all add: example_env_def example_world_def find_user_def)

lemma example_cache_read_returns: "cache_read_returns (example_env ev) session"
  by (simp add: cache_read_returns_def example_env_def split: option.splits)

lemma example_accepted: "accepted (example_env ev) ops"
  by (simp add: accepted_def example_env_def list_all_iff)

lemma example_template:
  "readFileSync_base64 (example_env ev) ''./public/documenso-supporter-pledge.pdf'' = Inr ''JVBERi0x''"
  by (simp add: example_env_def)

lemma example_stamp_image:
  "spec_stamp (example_env ev') (data_object image_event) user (redis example_world) ''JVBERi0x''
     = Inr ''JVBERi0x+image data:image/png;base64,iVBOR''"
  by (simp add: spec_stamp_def spec_cached_image_def image_event_def checkout_event_def
      metadata_get_def example_world_def example_env_def)

lemma example_stamp_text:
  "spec_stamp (example_env ev') (data_object text_event) user (redis example_world) ''JVBERi0x''
     = Inr ''JVBERi0x+text Ada L.''"
  by (simp add: spec_stamp_def spec_cached_image_def spec_typed_text_def text_event_def
      checkout_event_def metadata_get_def example_world_def example_env_def)

lemma example_stamp_nameless:
  "spec_stamp (example_env ev') (data_object nameless_event)
     \<lparr>user_id = 8, user_name = None, user_email = ''anon@example.com''\<rparr>
     (redis example_world) ''JVBERi0x''
     = Inr ''JVBERi0x+text ''"
  by (simp add: spec_stamp_def spec_cached_image_def spec_typed_text_def nameless_event_def
      checkout_event_def metadata_get_def example_world_def example_env_def)

lemma unreachable_database_verified:
  "verified_event (unreachable_database_env ev) example_request ev"
  by (simp add: verified_event_def unreachable_database_env_def example_env_def
      example_request_def request_sig_def truthy_def)

lemma unreachable_database_rejects:
  "\<not> accepted (unreachable_database_env ev) (op # ops)"
  by (simp add: accepted_def unreachable_database_env_def)

section \<open>The claims on the webhook\<close>

text \<open>
  Claim C1. A completed checkout from the landing page with a matching user, in a run
  whose operations all return (the read of the cache if there is one, the read of the
  template, the stamping, the five writes), is answered with 200 and appends one
  document whose PDF is the result of the stamping the specification describes
  (\<open>spec_stamp\<close>): the image insertion on the cached image when the metadata supplies a
  cache key and the cache holds a non-empty value under it, and otherwise the text
  insertion on the \<open>signatureText\<close> of the metadata or else the name of the user. The one
  stamping call of the run is that operation.
\<close>

theorem checkout_stamps_image_or_text:
  assumes "verified_event env req ev" "checkout_completed ev" "from_landing ev"
    and "paying_user env w ev = Inr (Some user)"
    and "cache_read_returns env (data_object ev)"
    and "readFileSync_base64 env ''./public/documenso-supporter-pledge.pdf'' = Inr template"
    and "spec_stamp env (data_object ev) user (redis w) template = Inr pdf"
    and "accepted env
          (pledge_creates env user w template @
           [pledge_signature_create (data_object ev) user w, pledge_document_update w pdf])"
  shows "fst (handler env req w) =
           Responded \<lparr>status = 200, success = True, message = ''Webhook received''\<rparr> \<and>
         db_documents (snd (handler env req w)) = db_documents w @
           [\<lparr>document_title = ''Documenso Supporter Pledge.pdf'', document_status = COMPLETED,
             document_userId = user_id user, document_document = pdf,
             document_created = new_Date env,
             document_id = next_id (map document_id (db_documents w))\<rparr>] \<and>
         filter (\<lambda>c. stamp_position c \<noteq> None) (new_calls w (snd (handler env req w))) =
           [case spec_cached_image (data_object ev) (redis w) of
              None \<Rightarrow>
                Call_insertTextInPDF template (spec_typed_text (data_object ev) user) 77 638 0
            | Some img \<Rightarrow> Call_insertImageInPDF template img 77 638 0]"
proof (intro conjI)
  show "fst (handler env req w) =
           Responded \<lparr>status = 200, success = True, message = ''Webhook received''\<rparr>"
    using assms by (rule handler_stamped(1))
  show "db_documents (snd (handler env req w)) = db_documents w @
           [\<lparr>document_title = ''Documenso Supporter Pledge.pdf'', document_status = COMPLETED,
             document_userId = user_id user, document_document = pdf,
             document_created = new_Date env,
             document_id = next_id (map document_id (db_documents w))\<rparr>]"
    using assms by (rule handler_stamped(3))
  show "filter (\<lambda>c. stamp_position c \<noteq> None) (new_calls w (snd (handler env req w))) =
           [case spec_cached_image (data_object ev) (redis w) of
              None \<Rightarrow>
                Call_insertTextInPDF template (spec_typed_text (data_object ev) user) 77 638 0
            | Some img \<Rightarrow> Call_insertImageInPDF template img 77 638 0]"
    unfolding new_calls_def handler_stamped(8) [OF assms]
    by (simp split: option.splits)
qed

text \<open>
  C1 on two events for the user 7: one that names the cached image \<open>k1\<close>, one that gives
  the text \<open>Ada L.\<close>
\<close>

theorem checkout_stamps_image_or_text_witness:
  "map document_document
     (db_documents (snd (handler (example_env image_event) example_request example_world))) =
     [''JVBERi0x+image data:image/png;base64,iVBOR''] \<and>
   map document_document
     (db_documents (snd (handler (example_env text_event) example_request example_world))) =
     [''JVBERi0x+text Ada L.'']"
proof -
  have i: "from_landing image_event" "checkout_completed image_event"
    and t: "from_landing text_event" "checkout_completed text_event"
    by (simp_all add: image_event_def text_event_def example_from_landing example_completed)
  have pi: "paying_user (example_env image_event) example_world image_event =
     Inr (Some \<lparr>user_id = 7, user_name = Some ''Ada'', user_email = ''ada@example.com''\<rparr>)"
    unfolding image_event_def by (rule example_paying_user(1))
  have pt: "paying_user (example_env text_event) example_world text_event =
     Inr (Some \<lparr>user_id = 7, user_name = Some ''Ada'', user_email = ''ada@example.com''\<rparr>)"
    unfolding text_event_def by (rule example_paying_user(1))
  show ?thesis
    using checkout_stamps_image_or_text
            [OF example_verified i(2) i(1) pi example_cache_read_returns example_template
                example_stamp_image example_accepted]
          checkout_stamps_image_or_text
            [OF example_verified t(2) t(1) pt example_cache_read_returns example_template
                example_stamp_text example_accepted]
    by (simp add: example_world_def)
qed

text \<open>
  Claim C2. The handler answers 200 exactly when the event is handled: the request carries
  a signature, its body is read and verifies to a completed checkout and, when the
  checkout comes from the landing page, no step of the block fails: the user is found, the
  read of the cache returns, the template is read, the stamping succeeds and the database
  accepts the five writes. It answers 400 when the signature header is missing (or is not
  a non-empty string) and when the verified event is of another type, and 500 when the
  query for the paying user finds nobody.
\<close>

theorem handler_status:
  fixes env req w
  defines "handled \<equiv>
    (\<exists>ev. verified_event env req ev \<and> checkout_completed ev \<and>
       (from_landing ev \<longrightarrow>
          (\<exists>user template pdf.
             paying_user env w ev = Inr (Some user) \<and>
             cache_read_returns env (data_object ev) \<and>
             readFileSync_base64 env ''./public/documenso-supporter-pledge.pdf'' = Inr template \<and>
             spec_stamp env (data_object ev) user (redis w) template = Inr pdf \<and>
             accepted env
               (pledge_creates env user w template @
                [pledge_signature_create (data_object ev) user w,
                 pledge_document_update w pdf]))))"
  shows
    "((\<exists>r. fst (handler env req w) = Responded r \<and> status r = 200) \<longleftrightarrow> handled) \<and>
     (stripe_signature req = Header_undefined \<or> \<not> truthy (request_sig req) \<longrightarrow>
        fst (handler env req w) =
          Responded \<lparr>status = 400, success = False,
            message = ''No signature found in request''\<rparr>) \<and>
     (\<forall>ev. verified_event env req ev \<and> \<not> checkout_completed ev \<longrightarrow>
        fst (handler env req w) =
          Responded \<lparr>status = 400, success = False, message = ''Unhandled webhook event''\<rparr>) \<and>
     (\<forall>ev. verified_event env req ev \<and> checkout_completed ev \<and> from_landing ev \<and>
           paying_user env w ev = Inr None \<longrightarrow>
        fst (handler env req w) =
          Responded \<lparr>status = 500, success = False, message = ''User not found''\<rparr>)"
proof (intro conjI allI impI)
  show "(\<exists>r. fst (handler env req w) = Responded r \<and> status r = 200) \<longleftrightarrow> handled"
  proof
    assume "\<exists>r. fst (handler env req w) = Responded r \<and> status r = 200"
    then obtain r where r: "fst (handler env req w) = Responded r" "status r = 200" by blast
    have sig: "truthy (request_sig req)"
      using r handler_unsigned [of req env w] by (cases "truthy (request_sig req)") auto
    obtain ev where ev: "verified_event env req ev"
      using r handler_unverified [OF sig, of env w] by fastforce
    have c: "checkout_completed ev"
      using r handler_unhandled_type [OF ev, of w] by (cases "checkout_completed ev") auto
    show handled
      unfolding handled_def using ev c handler_landing_handled [OF ev c _ r] by blast
  next
    assume handled
    then obtain ev where ev: "verified_event env req ev" "checkout_completed ev"
      and l: "from_landing ev \<longrightarrow>
          (\<exists>user template pdf.
             paying_user env w ev = Inr (Some user) \<and>
             cache_read_returns env (data_object ev) \<and>
             readFileSync_base64 env ''./public/documenso-supporter-pledge.pdf'' = Inr template \<and>
             spec_stamp env (data_object ev) user (redis w) template = Inr pdf \<and>
             accepted env
               (pledge_creates env user w template @
                [pledge_signature_create (data_object ev) user w,
                 pledge_document_update w pdf]))"
      unfolding handled_def by blast
    have "fst (handler env req w) =
        Responded \<lparr>status = 200, success = True, message = ''Webhook received''\<rparr>"
    proof (cases "from_landing ev")
      case True
      with l obtain user template pdf where
        "paying_user env w ev = Inr (Some user)"
        "cache_read_returns env (data_object ev)"
        "readFileSync_base64 env ''./public/documenso-supporter-pledge.pdf'' = Inr template"
        "spec_stamp env (data_object ev) user (redis w) template = Inr pdf"
        "accepted env
               (pledge_creates env user w template @
                [pledge_signature_create (data_object ev) user w,
                 pledge_document_update w pdf])"
        by blast
      with ev True show ?thesis by (rule handler_stamped(1))
    next
      case False
      with ev show ?thesis using handler_other_source [of env req ev w] by simp
    qed
    then show "\<exists>r. fst (handler env req w) = Responded r \<and> status r = 200" by simp
  qed
next
  assume "stripe_signature req = Header_undefined \<or> \<not> truthy (request_sig req)"
  then have "\<not> truthy (request_sig req)"
    by (auto simp: request_sig_def truthy_def)
  then show "fst (handler env req w) =
          Responded \<lparr>status = 400, success = False,
            message = ''No signature found in request''\<rparr>"
    by (simp add: handler_unsigned)
next
  fix ev
  assume "verified_event env req ev \<and> \<not> checkout_completed ev"
  then show "fst (handler env req w) =
          Responded \<lparr>status = 400, success = False, message = ''Unhandled webhook event''\<rparr>"
    using handler_unhandled_type [of env req ev w] by simp
next
  fix ev
  assume "verified_event env req ev \<and> checkout_completed ev \<and> from_landing ev \<and>
           paying_user env w ev = Inr None"
  then show "fst (handler env req w) =
          Responded \<lparr>status = 500, success = False, message = ''User not found''\<rparr>"
    using handler_no_user [of env req ev w] by simp
qed


text \<open>
  C2 on five requests: a handled one, one without the header, an event of another type,
  a landing checkout whose reference 999 matches no user, and the handled one again with a
  database that rejects every write, which is not answered with 200.
\<close>

theorem handler_status_witness:
  "fst (handler (example_env text_event) example_request example_world) =
     Responded \<lparr>status = 200, success = True, message = ''Webhook received''\<rparr> \<and>
   fst (handler (example_env text_event) unsigned_request example_world) =
     Responded \<lparr>status = 400, success = False, message = ''No signature found in request''\<rparr> \<and>
   fst (handler (example_env invoice_event) example_request example_world) =
     Responded \<lparr>status = 400, success = False, message = ''Unhandled webhook event''\<rparr> \<and>
   fst (handler (example_env stranger_landing_event) example_request example_world) =
     Responded \<lparr>status = 500, success = False, message = ''User not found''\<rparr> \<and>
   fst (handler (unreachable_database_env text_event) example_request example_world) \<noteq>
     Responded \<lparr>status = 200, success = True, message = ''Webhook received''\<rparr>"
proof -
  have t: "from_landing text_event" "checkout_completed text_event"
    by (simp_all add: text_event_def example_from_landing example_completed)
  have pt: "paying_user (example_env text_event) example_world text_event =
     Inr (Some \<lparr>user_id = 7, user_name = Some ''Ada'', user_email = ''ada@example.com''\<rparr>)"
    unfolding text_event_def by (rule example_paying_user(1))
  have s: "from_landing stranger_landing_event" "checkout_completed stranger_landing_event"
    by (simp_all add: stranger_landing_event_def example_from_landing example_completed)
  have ps: "paying_user (example_env stranger_landing_event) example_world stranger_landing_event
      = Inr None"
    unfolding stranger_landing_event_def by (rule example_paying_user(3))
  have i: "\<not> checkout_completed invoice_event"
    by (simp add: checkout_completed_def invoice_event_def)
  have u: "stripe_signature unsigned_request = Header_undefined"
    by (simp add: unsigned_request_def)
  have "\<exists>r. fst (handler (example_env text_event) example_request example_world) = Responded r
      \<and> status r = 200"
    using handler_status [of "example_env text_event" example_request example_world]
      example_verified [of text_event] t pt example_template [of text_event]
      example_stamp_text [of text_event] example_cache_read_returns [of text_event]
      example_accepted [of text_event]
    by blast
  moreover have "\<And>r. status r = 200 \<Longrightarrow>
      fst (handler (example_env text_event) example_request example_world) = Responded r \<Longrightarrow>
      r = \<lparr>status = 200, success = True, message = ''Webhook received''\<rparr>"
    using handler_stamped(1) [OF example_verified t(2) t(1) pt example_cache_read_returns
        example_template example_stamp_text example_accepted]
    by simp
  ultimately have 1: "fst (handler (example_env text_event) example_request example_world) =
     Responded \<lparr>status = 200, success = True, message = ''Webhook received''\<rparr>"
    by blast
  have v: "\<And>ev. verified_event (unreachable_database_env text_event) example_request ev \<Longrightarrow>
      ev = text_event"
    by (simp add: verified_event_def unreachable_database_env_def example_env_def
        example_request_def)
  have "\<not> (\<exists>r. fst (handler (unreachable_database_env text_event) example_request example_world)
      = Responded r \<and> status r = 200)"
    using handler_status [of "unreachable_database_env text_event" example_request example_world]
      v t unreachable_database_rejects [of text_event]
    by (auto simp: pledge_creates_def Let_def)
  then have 5: "fst (handler (unreachable_database_env text_event) example_request example_world)
      \<noteq> Responded \<lparr>status = 200, success = True, message = ''Webhook received''\<rparr>"
    by auto
  show ?thesis
    using 1 5 handler_status [of "example_env text_event" unsigned_request example_world] u
      handler_status [of "example_env invoice_event" example_request example_world]
      example_verified [of invoice_event] i
      handler_status [of "example_env stranger_landing_event" example_request example_world]
      example_verified [of stranger_landing_event] s ps
    by blast
qed

text \<open>
  Claim C3 as stated fails: a completed checkout whose metadata names another source than
  the landing page and whose reference 999 matches no user is answered with 200, not 500.
\<close>

theorem stranger_without_landing_counterexample:
  "verified_event (example_env stranger_app_event) example_request stranger_app_event \<and>
   checkout_completed stranger_app_event \<and>
   paying_user (example_env stranger_app_event) example_world stranger_app_event = Inr None \<and>
   fst (handler (example_env stranger_app_event) example_request example_world) =
     Responded \<lparr>status = 200, success = True, message = ''Webhook received''\<rparr>"
proof -
  have c: "checkout_completed stranger_app_event" "\<not> from_landing stranger_app_event"
    by (simp_all add: stranger_app_event_def example_from_landing example_completed)
  have p: "paying_user (example_env stranger_app_event) example_world stranger_app_event = Inr None"
    unfolding stranger_app_event_def by (rule example_paying_user(3))
  show ?thesis
    using example_verified c p handler_other_source [OF example_verified c] by simp
qed

text \<open>
  Claim C3, amended: a completed checkout from the landing page whose client reference
  matches no user is answered with 500; the tables and the cache are unchanged, and the
  only call made is the query for the user.
\<close>

theorem landing_stranger_changes_nothing:
  assumes "verified_event env req ev" "checkout_completed ev" "from_landing ev"
    and "paying_user env w ev = Inr None"
  shows "fst (handler env req w) =
           Responded \<lparr>status = 500, success = False, message = ''User not found''\<rparr> \<and>
         tables (snd (handler env req w)) = tables w \<and>
         redis (snd (handler env req w)) = redis w \<and>
         new_calls w (snd (handler env req w)) = [Call_user_findFirst (reference_number env ev)]"
  using handler_no_user [OF assms]
  by (simp add: tables_log_call redis_log_call calls_log_call new_calls_def)

text \<open>
  The amended C3 on the landing checkout with reference 999.
\<close>

theorem landing_stranger_changes_nothing_witness:
  "fst (handler (example_env stranger_landing_event) example_request example_world) =
     Responded \<lparr>status = 500, success = False, message = ''User not found''\<rparr> \<and>
   tables (snd (handler (example_env stranger_landing_event) example_request example_world)) =
     tables example_world \<and>
   new_calls example_world
     (snd (handler (example_env stranger_landing_event) example_request example_world)) =
     [Call_user_findFirst (Num 999)]"
proof -
  have s: "checkout_completed stranger_landing_event" "from_landing stranger_landing_event"
    by (simp_all add: stranger_landing_event_def example_from_landing example_completed)
  have ps: "paying_user (example_env stranger_landing_event) example_world stranger_landing_event
      = Inr None"
    unfolding stranger_landing_event_def by (rule example_paying_user(3))
  have n: "reference_number (example_env stranger_landing_event) stranger_landing_event = Num 999"
    unfolding stranger_landing_event_def
    by (simp add: example_reference_number Number_of_digits_examples)
  show ?thesis
    using landing_stranger_changes_nothing [OF example_verified s ps] n by simp
qed

text \<open>
  Claim C8. A completed checkout whose metadata has no source, or another source than
  \<open>landing\<close>, is answered with 200 and leaves the whole state as it was: no call is made
  (so no user is looked up) and no row is created.
\<close>

theorem other_source_changes_nothing:
  assumes "verified_event env req ev" "checkout_completed ev"
    and "metadata_get (data_object ev) ''source'' \<noteq> Some ''landing''"
  shows "handler env req w =
           (Responded \<lparr>status = 200, success = True, message = ''Webhook received''\<rparr>, w) \<and>
         new_calls w (snd (handler env req w)) = [] \<and>
         tables (snd (handler env req w)) = tables w"
proof -
  have "\<not> from_landing ev" using assms(3) by (simp add: from_landing_def)
  then show ?thesis
    using handler_other_source [OF assms(1,2)] by (simp add: new_calls_def)
qed

text \<open>
  C8 on a checkout with the source \<open>app\<close> and on one with empty metadata.
\<close>

theorem other_source_changes_nothing_witness:
  "handler (example_env stranger_app_event) example_request example_world =
     (Responded \<lparr>status = 200, success = True, message = ''Webhook received''\<rparr>, example_world) \<and>
   handler (example_env (checkout_event ''7'' Map.empty)) example_request example_world =
     (Responded \<lparr>status = 200, success = True, message = ''Webhook received''\<rparr>, example_world)"
proof -
  have a: "metadata_get (data_object stranger_app_event) ''source'' \<noteq> Some ''landing''"
    by (simp add: stranger_app_event_def checkout_event_def metadata_get_def)
  have b: "metadata_get (data_object (checkout_event ''7'' Map.empty)) ''source'' \<noteq> Some ''landing''"
    by (simp add: checkout_event_def metadata_get_def)
  have c: "checkout_completed stranger_app_event"
    by (simp add: stranger_app_event_def example_completed)
  show ?thesis
    using other_source_changes_nothing [OF example_verified c a, of example_world]
      other_source_changes_nothing [OF example_verified example_completed b, of example_world]
    by simp
qed

text \<open>
  Claim C4. When a completed checkout from the landing page is handled (answered with
  200), the run created one field, a signature field on page 0 at x = 77, y = 638, and
  made exactly one stamping call, with the coordinates and the page of that field.
\<close>

theorem handled_landing_coordinates:
  assumes "verified_event env req ev" "checkout_completed ev" "from_landing ev"
    and "fst (handler env req w) = Responded r" "status r = 200"
  shows "\<exists>f. db_fields (snd (handler env req w)) = db_fields w @ [f] \<and>
             field_type f = SIGNATURE \<and>
             field_page f = 0 \<and> field_positionX f = 77 \<and> field_positionY f = 638 \<and>
             List.map_filter stamp_position (new_calls w (snd (handler env req w))) =
               [(field_positionX f, field_positionY f, field_page f)]"
proof -
  obtain user template pdf where
    u: "paying_user env w ev = Inr (Some user)"
    and c: "cache_read_returns env (data_object ev)"
    and t: "readFileSync_base64 env ''./public/documenso-supporter-pledge.pdf'' = Inr template"
    and s: "spec_stamp env (data_object ev) user (redis w) template = Inr pdf"
    and a: "accepted env
             (pledge_creates env user w template @
              [pledge_signature_create (data_object ev) user w, pledge_document_update w pdf])"
    using handler_landing_handled [OF assms] by blast
  note run = handler_stamped [OF assms(1-3) u c t s a]
  have "List.map_filter stamp_position (new_calls w (snd (handler env req w))) = [(77, 638, 0)]"
    unfolding new_calls_def run(8)
    by (simp add: List.map_filter_def split: option.splits)
  then show ?thesis using run(5) by simp
qed

text \<open>
  C4 on the event that names the cached image.
\<close>

theorem handled_landing_coordinates_witness:
  "map (\<lambda>f. (field_page f, field_positionX f, field_positionY f))
     (db_fields (snd (handler (example_env image_event) example_request example_world))) =
     [(0, 77, 638)] \<and>
   List.map_filter stamp_position
     (new_calls example_world (snd (handler (example_env image_event) example_request example_world))) =
     [(77, 638, 0)]"
proof -
  have i: "checkout_completed image_event" "from_landing image_event"
    by (simp_all add: image_event_def example_from_landing example_completed)
  have pi: "paying_user (example_env image_event) example_world image_event =
     Inr (Some \<lparr>user_id = 7, user_name = Some ''Ada'', user_email = ''ada@example.com''\<rparr>)"
    unfolding image_event_def by (rule example_paying_user(1))
  have ok: "fst (handler (example_env image_event) example_request example_world) =
      Responded \<lparr>status = 200, success = True, message = ''Webhook received''\<rparr>"
    by (rule handler_stamped(1) [OF example_verified i pi example_cache_read_returns
          example_template example_stamp_image example_accepted])
  have st: "status \<lparr>status = 200, success = True, message = ''Webhook received''\<rparr> = 200"
    by simp
  show ?thesis
    using handled_landing_coordinates [OF example_verified i ok st]
    by (auto simp: example_world_def)
qed

text \<open>
  The table of signatures changes only in a run that found the user, read the cache and
  the template, created the document, the recipient and the field, stamped the template
  and had the creation of the signature accepted.
\<close>

lemma signature_rows_origin:
  assumes "db_signatures (snd (handler env req w)) \<noteq> db_signatures w"
  shows "\<exists>ev user template pdf.
           verified_event env req ev \<and> checkout_completed ev \<and> from_landing ev \<and>
           paying_user env w ev = Inr (Some user) \<and>
           cache_read_returns env (data_object ev) \<and>
           readFileSync_base64 env ''./public/documenso-supporter-pledge.pdf'' = Inr template \<and>
           spec_stamp env (data_object ev) user (redis w) template = Inr pdf \<and>
           accepted env
             (pledge_creates env user w template @
              [pledge_signature_create (data_object ev) user w])"
proof -
  have sig: "truthy (request_sig req)"
    using assms handler_unsigned [of req env w] by (cases "truthy (request_sig req)") auto
  obtain ev where ev: "verified_event env req ev"
    using assms handler_unverified [OF sig, of env w] by fastforce
  have c: "checkout_completed ev"
    using assms handler_unhandled_type [OF ev, of w] by (cases "checkout_completed ev") auto
  have l: "from_landing ev"
    using assms handler_other_source [OF ev c, of w] by (cases "from_landing ev") auto
  have t0: "db_signatures (log_call (Call_user_findFirst (reference_number env ev)) w)
      = db_signatures w"
    by (simp add: log_call_def)
  obtain user where u: "paying_user env w ev = Inr (Some user)"
    using assms handler_lookup_threw [OF ev c l, of w] handler_no_user [OF ev c l, of w] t0
    by (cases "paying_user env w ev"; cases "projr (paying_user env w ev)") auto
  let ?w0 = "log_call (Call_user_findFirst (reference_number env ev)) w"
  have ch: "db_signatures (snd (create_pledge env (data_object ev) user ?w0)) \<noteq> db_signatures ?w0"
    using assms handler_user_answer(2) [OF ev c l u] t0 by simp
  have cr: "cache_read_returns env (data_object ev)"
    using ch create_pledge_cache_rejected(2) [of env "data_object ev" user ?w0] by blast
  obtain template where tmpl:
    "readFileSync_base64 env ''./public/documenso-supporter-pledge.pdf'' = Inr template"
    using ch create_pledge_no_template(2) [of env _ "data_object ev" user ?w0]
    by (cases "readFileSync_base64 env ''./public/documenso-supporter-pledge.pdf''") auto
  have a: "accepted env (pledge_creates env user ?w0 template)"
    using ch create_pledge_creates_rejected(2) [OF cr tmpl, of user ?w0] by blast
  obtain pdf where st: "spec_stamp env (data_object ev) user (redis ?w0) template = Inr pdf"
    using ch create_pledge_stamp_failed(2) [OF cr tmpl a]
    by (cases "spec_stamp env (data_object ev) user (redis ?w0) template") auto
  have s: "accepted env [pledge_signature_create (data_object ev) user ?w0]"
    using ch create_pledge_signature_rejected [OF cr tmpl st a] by blast
  show ?thesis
    using ev c l u cr tmpl st a s
    by (auto simp: accepted_def pledge_writes_log_call redis_log_call)
qed

text \<open>
  Claim C9 as stated fails: for a user without a name and metadata without a
  \<open>signatureText\<close> the empty string is stamped, but the \<open>typedSignature\<close> of the record is
  null, not the stamped text, and neither column is populated.
\<close>

theorem nameless_signature_counterexample:
  "fst (handler (example_env nameless_event) example_request example_world) =
     Responded \<lparr>status = 200, success = True, message = ''Webhook received''\<rparr> \<and>
   new_calls example_world (snd (handler (example_env nameless_event) example_request example_world)) =
     [Call_user_findFirst (Num 8), Call_insertTextInPDF ''JVBERi0x'' [] 77 638 0] \<and>
   map typedSignature
     (db_signatures (snd (handler (example_env nameless_event) example_request example_world))) =
     [None] \<and>
   map signatureImageAsBase64
     (db_signatures (snd (handler (example_env nameless_event) example_request example_world))) =
     [None]"
proof -
  have n: "checkout_completed nameless_event" "from_landing nameless_event"
    by (simp_all add: nameless_event_def example_from_landing example_completed)
  have p: "paying_user (example_env nameless_event) example_world nameless_event =
     Inr (Some \<lparr>user_id = 8, user_name = None, user_email = ''anon@example.com''\<rparr>)"
    unfolding nameless_event_def by (rule example_paying_user(2))
  note run = handler_stamped [OF example_verified n p example_cache_read_returns
      example_template example_stamp_nameless example_accepted]
  have r: "reference_number (example_env nameless_event) nameless_event = Num 8"
    unfolding nameless_event_def
    by (simp add: example_reference_number Number_of_digits_examples)
  have c: "spec_cached_image (data_object nameless_event) (redis example_world) = None"
    by (simp add: spec_cached_image_def nameless_event_def checkout_event_def metadata_get_def)
  have m: "metadata_get (data_object nameless_event) ''signatureDataUrl'' = None"
    by (simp add: nameless_event_def checkout_event_def metadata_get_def)
  have tx: "spec_typed_text (data_object nameless_event)
      \<lparr>user_id = 8, user_name = None, user_email = ''anon@example.com''\<rparr> = []"
    by (simp add: spec_typed_text_def nameless_event_def checkout_event_def metadata_get_def)
  have st: "signatureText_of (data_object nameless_event)
      \<lparr>user_id = 8, user_name = None, user_email = ''anon@example.com''\<rparr> = None"
    by (simp add: signatureText_of_def or_else_def nameless_event_def checkout_event_def
        metadata_get_def)
  show ?thesis
    unfolding new_calls_def run(1) run(6) run(8) r c m tx st
    by (simp add: example_world_def)
qed

text \<open>
  Claim C9, amended: a run that creates a signature record (whether or not the update of
  the document that goes with it is accepted) creates one and never populates both
  columns. With a cached image, \<open>signatureImageAsBase64\<close> is the stamped image and
  \<open>typedSignature\<close> the empty string. Otherwise \<open>signatureImageAsBase64\<close> is unset and
  \<open>typedSignature\<close> is the signature text: the \<open>signatureText\<close> of the metadata when it is
  non-empty, else the name of the user, which may be null; the stamped text is that value
  with null replaced by the empty string.
\<close>

theorem signature_modality:
  fixes env req w ev user template pdf
  defines "w' \<equiv> snd (handler env req w)"
  assumes "verified_event env req ev" "checkout_completed ev" "from_landing ev"
    and "paying_user env w ev = Inr (Some user)"
    and "cache_read_returns env (data_object ev)"
    and "readFileSync_base64 env ''./public/documenso-supporter-pledge.pdf'' = Inr template"
    and "spec_stamp env (data_object ev) user (redis w) template = Inr pdf"
    and "accepted env
          (pledge_creates env user w template @ [pledge_signature_create (data_object ev) user w])"
  shows "\<exists>s c. db_signatures w' = db_signatures w @ [s] \<and>
           filter (\<lambda>c. stamp_position c \<noteq> None) (new_calls w w') = [c] \<and>
           (case spec_cached_image (data_object ev) (redis w) of
              Some img \<Rightarrow>
                stamped_image c = Some img \<and>
                signatureImageAsBase64 s = Some img \<and> typedSignature s = Some []
            | None \<Rightarrow>
                signatureImageAsBase64 s = None \<and>
                typedSignature s =
                  or_else (metadata_get (data_object ev) ''signatureText'') (user_name user) \<and>
                stamped_text c = Some (or_empty (typedSignature s))) \<and>
           \<not> (populated (signatureImageAsBase64 s) \<and> populated (typedSignature s))"
proof -
  note run = handler_signature_created [OF assms(2-9), folded w'_def]
  show ?thesis
    unfolding new_calls_def run(1) run(2)
    by (auto simp: populated_def signatureText_of_def or_empty_signatureText_of [symmetric]
        split: option.splits)
qed

text \<open>
  The amended C9 on the event with a cached image and on the event with a typed text.
\<close>

theorem signature_modality_witness:
  "map (\<lambda>s. (signatureImageAsBase64 s, typedSignature s))
     (db_signatures (snd (handler (example_env image_event) example_request example_world))) =
     [(Some ''data:image/png;base64,iVBOR'', Some [])] \<and>
   map (\<lambda>s. (signatureImageAsBase64 s, typedSignature s))
     (db_signatures (snd (handler (example_env text_event) example_request example_world))) =
     [(None, Some ''Ada L.'')]"
proof -
  have i: "checkout_completed image_event" "from_landing image_event"
    and t: "checkout_completed text_event" "from_landing text_event"
    by (simp_all add: image_event_def text_event_def example_from_landing example_completed)
  have pi: "paying_user (example_env image_event) example_world image_event =
     Inr (Some \<lparr>user_id = 7, user_name = Some ''Ada'', user_email = ''ada@example.com''\<rparr>)"
    unfolding image_event_def by (rule example_paying_user(1))
  have pt: "paying_user (example_env text_event) example_world text_event =
     Inr (Some \<lparr>user_id = 7, user_name = Some ''Ada'', user_email = ''ada@example.com''\<rparr>)"
    unfolding text_event_def by (rule example_paying_user(1))
  have ci: "spec_cached_image (data_object image_event) (redis example_world) =
      Some ''data:image/png;base64,iVBOR''"
    by (simp add: spec_cached_image_def image_event_def checkout_event_def metadata_get_def
        example_world_def)
  have ct: "spec_cached_image (data_object text_event) (redis example_world) = None"
    by (simp add: spec_cached_image_def text_event_def checkout_event_def metadata_get_def)
  have mt: "metadata_get (data_object text_event) ''signatureText'' = Some ''Ada L.''"
    by (simp add: text_event_def checkout_event_def metadata_get_def)
  show ?thesis
    using signature_modality [OF example_verified i pi example_cache_read_returns
        example_template example_stamp_image example_accepted]
      signature_modality [OF example_verified t pt example_cache_read_returns
        example_template example_stamp_text example_accepted]
    unfolding ci ct mt
    by (auto simp: example_world_def or_else_def truthy_def)
qed

section \<open>The claims on the document page\<close>

text \<open>
  Claim C5. When the id of the route converts to a falsy number (\<open>NaN\<close> or a zero), the
  page redirects to \<open>/documents\<close> and renders nothing; and when the query for the document
  of the signed-in user rejects or gives no document, the page redirects to \<open>/documents\<close>
  as well.
\<close>

theorem page_redirects:
  fixes env props
  defines "documentId \<equiv> Number env (params_id props)"
  shows "(\<not> number_truthy documentId \<or> Number_isNaN documentId \<longrightarrow>
            DocumentPage env props = Redirected ''/documents'') \<and>
         (\<forall>session.
            getRequiredServerComponentSession env = Inr session \<and>
            ((\<exists>e. getDocumentById env documentId (user_id session) = Inl e) \<or>
             getDocumentById env documentId (user_id session) = Inr None) \<longrightarrow>
            DocumentPage env props = Redirected ''/documents'')"
  by (auto simp: DocumentPage_def documentId_def Let_def)

text \<open>
  C5 on a string that is no number, on the empty string, on zero, and on the id 43, which
  the signed-in user has no document for.
\<close>

theorem page_redirects_witness:
  "DocumentPage example_page_env \<lparr>params_id = ''abc''\<rparr> = Redirected ''/documents'' \<and>
   DocumentPage example_page_env \<lparr>params_id = []\<rparr> = Redirected ''/documents'' \<and>
   DocumentPage example_page_env \<lparr>params_id = ''0''\<rparr> = Redirected ''/documents'' \<and>
   DocumentPage example_page_env \<lparr>params_id = ''43''\<rparr> = Redirected ''/documents''"
proof -
  have n: "Number example_page_env = Number_of_digits"
    by (simp add: example_page_env_def)
  have s: "getRequiredServerComponentSession example_page_env =
      Inr \<lparr>user_id = 7, user_name = Some ''Ada'', user_email = ''ada@example.com''\<rparr>"
    by (simp add: example_page_env_def)
  have d: "getDocumentById example_page_env (Number_of_digits ''43'') 7 =
      Inl (Error ''No Document found'')"
    by (simp add: example_page_env_def Number_of_digits_def digit_value_def)
  show ?thesis
    using page_redirects [of example_page_env "\<lparr>params_id = ''abc''\<rparr>"]
      page_redirects [of example_page_env "\<lparr>params_id = []\<rparr>"]
      page_redirects [of example_page_env "\<lparr>params_id = ''0''\<rparr>"]
      page_redirects [of example_page_env "\<lparr>params_id = ''43''\<rparr>"]
    unfolding n using s d
    by (simp add: Number_of_digits_examples)
qed

text \<open>The page renders the document 42 of the signed-in user.\<close>

lemma page_renders_example:
  "DocumentPage example_page_env \<lparr>params_id = ''42''\<rparr> =
     Rendered
       \<lparr>heading = ''Contract.pdf'', status_badge = COMPLETED, recipient_count = None,
        form_document = example_document,
        form_user = \<lparr>user_id = 7, user_name = Some ''Ada'', user_email = ''ada@example.com''\<rparr>,
        form_recipients = [], form_fields = []\<rparr>"
  by (simp add: DocumentPage_def example_page_env_def Number_of_digits_examples
      example_document_def)

section \<open>The claims on the two-factor dialog\<close>

lemma Z2FAAuthFormSchema_accepts:
  "4 \<le> length (token v) \<Longrightarrow> length (token v) \<le> 10 \<Longrightarrow> Z2FAAuthFormSchema v = Inr v"
  by (simp add: Z2FAAuthFormSchema_def)

lemma Z2FAAuthFormSchema_too_short:
  "length (token v) < 4 \<Longrightarrow>
   Z2FAAuthFormSchema v =
     Inl [\<lparr>issue_code = too_small, issue_path = [''token''],
           issue_message = ''Token must at least 4 characters long''\<rparr>]"
  by (simp add: Z2FAAuthFormSchema_def)

lemma Z2FAAuthFormSchema_too_long:
  "10 < length (token v) \<Longrightarrow>
   Z2FAAuthFormSchema v =
     Inl [\<lparr>issue_code = too_big, issue_path = [''token''],
           issue_message = ''Token must be at most 10 characters long''\<rparr>]"
  by (simp add: Z2FAAuthFormSchema_def)

lemma handleSubmit_valid:
  "4 \<le> length (form_token st) \<Longrightarrow> length (form_token st) \<le> 10 \<Longrightarrow>
   handleSubmit env props st =
     onFormSubmit env props \<lparr>token = form_token st\<rparr> (st\<lparr>form_errors := []\<rparr>)"
  by (simp add: handleSubmit_def Z2FAAuthFormSchema_accepts)

lemma callbacks_onFormSubmit:
  "callbacks (run_state (onFormSubmit env props values st)) =
     callbacks st @
     Called_onReauthFormSubmit \<lparr>auth_type = DocumentAuth_2FA, auth_token = token values\<rparr> #
     (if onReauthFormSubmit props \<lparr>auth_type = DocumentAuth_2FA, auth_token = token values\<rparr>
           = Some (Inr ())
      then [Called_onOpenChange False] else [])"
  by (simp add: onFormSubmit_def Let_def log_callback_def setIsCurrentlyAuthenticating_def
      setFormErrorCode_def split: option.splits sum.splits)

text \<open>
  Claim C6. The schema accepts a token exactly when its length is between 4 and 10. For a
  token outside these bounds the submission of the form stops at validation: the issues
  become the errors of the form, and the callback of the caller is not called.
\<close>

theorem token_length_validated:
  "((\<exists>v. Z2FAAuthFormSchema \<lparr>token = t\<rparr> = Inr v) \<longleftrightarrow> 4 \<le> length t \<and> length t \<le> 10) \<and>
   (\<not> (4 \<le> length (form_token st) \<and> length (form_token st) \<le> 10) \<longrightarrow>
      (\<exists>issues. issues \<noteq> [] \<and>
         Z2FAAuthFormSchema \<lparr>token = form_token st\<rparr> = Inl issues \<and>
         handleSubmit env props st = Completed (st\<lparr>form_errors := issues\<rparr>)) \<and>
      callbacks (run_state (handleSubmit env props st)) = callbacks st)"
proof (intro conjI impI)
  show "(\<exists>v. Z2FAAuthFormSchema \<lparr>token = t\<rparr> = Inr v) \<longleftrightarrow> 4 \<le> length t \<and> length t \<le> 10"
    by (auto simp: Z2FAAuthFormSchema_def Let_def split: if_splits)
next
  assume out: "\<not> (4 \<le> length (form_token st) \<and> length (form_token st) \<le> 10)"
  then consider "length (form_token st) < 4" | "10 < length (form_token st)" by linarith
  then show "\<exists>issues. issues \<noteq> [] \<and>
         Z2FAAuthFormSchema \<lparr>token = form_token st\<rparr> = Inl issues \<and>
         handleSubmit env props st = Completed (st\<lparr>form_errors := issues\<rparr>)"
  proof cases
    case 1
    then show ?thesis
      using Z2FAAuthFormSchema_too_short [of "\<lparr>token = form_token st\<rparr>"]
      by (simp add: handleSubmit_def)
  next
    case 2
    then show ?thesis
      using Z2FAAuthFormSchema_too_long [of "\<lparr>token = form_token st\<rparr>"]
      by (simp add: handleSubmit_def)
  qed
  then show "callbacks (run_state (handleSubmit env props st)) = callbacks st"
    by auto
qed

text \<open>
  C6 on a token of 6 characters, which is accepted, and on tokens of 3 and of 11
  characters, for which no callback is called.
\<close>

theorem token_length_validated_witness:
  "Z2FAAuthFormSchema \<lparr>token = ''123456''\<rparr> = Inr \<lparr>token = ''123456''\<rparr> \<and>
   callbacks (run_state (handleSubmit example_dialog_env example_props (example_state ''123''))) = [] \<and>
   callbacks (run_state
     (handleSubmit example_dialog_env example_props (example_state ''12345678901''))) = []"
proof -
  have a: "4 \<le> length ''123456'' \<and> length ''123456'' \<le> 10" by simp
  have b: "\<not> (4 \<le> length (form_token (example_state ''123'')) \<and>
               length (form_token (example_state ''123'')) \<le> 10)"
    by (simp add: example_state_def)
  have c: "\<not> (4 \<le> length (form_token (example_state ''12345678901'')) \<and>
               length (form_token (example_state ''12345678901'')) \<le> 10)"
    by (simp add: example_state_def)
  have e: "callbacks (example_state tok) = []" for tok
    by (simp add: example_state_def)
  have "\<exists>v. Z2FAAuthFormSchema \<lparr>token = ''123456''\<rparr> = Inr v"
    using token_length_validated [of "''123456''" "example_state ''123''" example_dialog_env example_props] a
    by blast
  then have 1: "Z2FAAuthFormSchema \<lparr>token = ''123456''\<rparr> = Inr \<lparr>token = ''123456''\<rparr>"
    by (auto simp: Z2FAAuthFormSchema_def Let_def split: if_splits)
  show ?thesis
    using 1
      token_length_validated [of "''123456''" "example_state ''123''" example_dialog_env example_props]
      token_length_validated [of "''123456''" "example_state ''12345678901''" example_dialog_env example_props]
      b c e
    by simp
qed

text \<open>
  Claim C7 as stated fails: after a submission whose callback throws, the code of the
  parsed error, \<open>UnknownError\<close>, is stored in the state, but the text the form shows does
  not contain it.
\<close>

theorem error_code_not_shown_counterexample:
  "formErrorCode
     (run_state (onFormSubmit example_dialog_env example_props \<lparr>token = ''000000''\<rparr>
        (example_state ''000000''))) = Some ''UnknownError'' \<and>
   view_text
     (DocumentActionAuth2FA example_dialog_env example_props example_context
        (run_state (onFormSubmit example_dialog_env example_props \<lparr>token = ''000000''\<rparr>
           (example_state ''000000'')))) =
     [''2FA token'', ''Token'', ''Unauthorized'',
      ''We were unable to verify your details. Please try again or contact support'',
      ''Cancel'', ''Sign''] \<and>
   ''UnknownError'' \<notin> set (view_text
     (DocumentActionAuth2FA example_dialog_env example_props example_context
        (run_state (onFormSubmit example_dialog_env example_props \<lparr>token = ''000000''\<rparr>
           (example_state ''000000'')))))"
proof -
  have b: "onFormSubmit example_dialog_env example_props \<lparr>token = ''000000''\<rparr>
             (example_state ''000000'') =
           Completed
             \<lparr>isCurrentlyAuthenticating = False, formErrorCode = Some ''UnknownError'',
              form_token = ''000000'', form_errors = [],
              callbacks =
                [Called_onReauthFormSubmit \<lparr>auth_type = DocumentAuth_2FA, auth_token = ''000000''\<rparr>]\<rparr>"
    by (simp add: onFormSubmit_def example_props_def example_state_def Let_def
        example_dialog_env_def
        log_callback_def setIsCurrentlyAuthenticating_def setFormErrorCode_def)
  show ?thesis
    unfolding b
    by (simp add: DocumentActionAuth2FA_def example_context_def view_text_def truthy_def
        example_props_def)
qed

text \<open>
  Claim C7, amended: when the callback throws, the caught value is parsed into an
  application error and its code is stored as the error code of the form. When two-factor
  is enabled the form then shows one fixed alert, titled \<open>Unauthorized\<close>, if the code is
  a non-empty string, and no alert otherwise. All the text the form shows is fixed but for
  that choice and for the message of the field: it is the same for every caught value and
  for every non-empty code.
\<close>

theorem thrown_error_shows_fixed_alert:
  fixes env props "values" st ctx err
  defines "code \<equiv> app_code (parseError env err)"
  assumes "onReauthFormSubmit props \<lparr>auth_type = DocumentAuth_2FA, auth_token = token values\<rparr>
             = Some (Inl err)"
    and "user_twoFactorEnabled ctx = Some True"
  shows "\<exists>st'. onFormSubmit env props values st = Completed st' \<and>
           formErrorCode st' = Some code \<and>
           view_alerts (DocumentActionAuth2FA env props ctx st') =
             (if code = [] then []
              else [Alert Variant_destructive (Some ''Unauthorized'')
                      ''We were unable to verify your details. Please try again or contact support'']) \<and>
           view_text (DocumentActionAuth2FA env props ctx st') =
             [''2FA token'', ''Token''] @
             (case form_errors st of [] \<Rightarrow> [] | i # _ \<Rightarrow> [issue_message i]) @
             (if code = [] then []
              else [''Unauthorized'',
                    ''We were unable to verify your details. Please try again or contact support'']) @
             [''Cancel'', ''Sign'']"
  using assms(2,3)
  by (simp add: onFormSubmit_def Let_def log_callback_def setIsCurrentlyAuthenticating_def
      setFormErrorCode_def DocumentActionAuth2FA_def view_alerts_def view_text_def truthy_def
      code_def split: list.splits)

text \<open>
  The amended C7 on a run whose callback throws.
\<close>

theorem thrown_error_shows_fixed_alert_witness:
  "view_alerts
     (DocumentActionAuth2FA example_dialog_env example_props example_context
        (run_state (onFormSubmit example_dialog_env example_props \<lparr>token = ''000000''\<rparr>
           (example_state ''000000'')))) =
     [Alert Variant_destructive (Some ''Unauthorized'')
        ''We were unable to verify your details. Please try again or contact support''] \<and>
   view_text
     (DocumentActionAuth2FA example_dialog_env example_props example_context
        (run_state (onFormSubmit example_dialog_env example_props \<lparr>token = ''000000''\<rparr>
           (example_state ''000000'')))) =
     [''2FA token'', ''Token'', ''Unauthorized'',
      ''We were unable to verify your details. Please try again or contact support'',
      ''Cancel'', ''Sign'']"
proof -
  have t: "onReauthFormSubmit example_props
             \<lparr>auth_type = DocumentAuth_2FA, auth_token = token \<lparr>token = ''000000''\<rparr>\<rparr>
           = Some (Inl (Error ''Invalid token''))"
    by (simp add: example_props_def)
  have c: "user_twoFactorEnabled example_context = Some True"
    by (simp add: example_context_def)
  have p: "app_code (parseError example_dialog_env (Error ''Invalid token'')) = ''UnknownError''"
    by (simp add: example_dialog_env_def)
  have e: "form_errors (example_state ''000000'') = []"
    by (simp add: example_state_def)
  show ?thesis
    using thrown_error_shows_fixed_alert [OF t c, of example_dialog_env "example_state ''000000''"]
    unfolding p e by auto
qed

text \<open>
  Claim C10. A run of the submission handler reaches its end whenever the callback
  settles. When the callback returns, the run ends with the flag
  \<open>isCurrentlyAuthenticating\<close> false, \<open>onOpenChange(false)\<close> called and the error code as it
  was; when it throws, the run ends with the flag false, the error code set to the code of
  the parsed error, and \<open>onOpenChange\<close> not called. Hence after every run that reached its
  end the flag is false, the dialog was closed exactly when the callback returned, and
  the error code was set only when it threw.
\<close>

theorem onFormSubmit_completed:
  fixes env props "values" st
  defines "auth \<equiv> \<lparr>auth_type = DocumentAuth_2FA, auth_token = token values\<rparr>"
  shows "(onReauthFormSubmit props auth = Some (Inr ()) \<longrightarrow>
            onFormSubmit env props values st =
              Completed
                (st\<lparr>isCurrentlyAuthenticating := False,
                    callbacks := callbacks st @
                      [Called_onReauthFormSubmit auth, Called_onOpenChange False]\<rparr>)) \<and>
         (\<forall>e. onReauthFormSubmit props auth = Some (Inl e) \<longrightarrow>
            onFormSubmit env props values st =
              Completed
                (st\<lparr>isCurrentlyAuthenticating := False,
                    formErrorCode := Some (app_code (parseError env e)),
                    callbacks := callbacks st @ [Called_onReauthFormSubmit auth]\<rparr>)) \<and>
         (\<forall>st'. onFormSubmit env props values st = Completed st' \<longrightarrow>
            \<not> isCurrentlyAuthenticating st' \<and>
            (onReauthFormSubmit props auth = Some (Inr ()) \<or>
             (\<exists>e. onReauthFormSubmit props auth = Some (Inl e))) \<and>
            (Called_onOpenChange False \<in> set (new_callbacks st st') \<longleftrightarrow>
               onReauthFormSubmit props auth = Some (Inr ())) \<and>
            (onReauthFormSubmit props auth = Some (Inr ()) \<longrightarrow>
               new_callbacks st st' = [Called_onReauthFormSubmit auth, Called_onOpenChange False] \<and>
               formErrorCode st' = formErrorCode st) \<and>
            (\<forall>e. onReauthFormSubmit props auth = Some (Inl e) \<longrightarrow>
               new_callbacks st st' = [Called_onReauthFormSubmit auth] \<and>
               formErrorCode st' = Some (app_code (parseError env e))))"
proof -
  have returned: "onFormSubmit env props values st =
      Completed
        (st\<lparr>isCurrentlyAuthenticating := False,
            callbacks := callbacks st @
              [Called_onReauthFormSubmit auth, Called_onOpenChange False]\<rparr>)"
    if "onReauthFormSubmit props auth = Some (Inr ())"
    using that
    by (simp add: onFormSubmit_def Let_def auth_def log_callback_def
        setIsCurrentlyAuthenticating_def)
  have threw: "onFormSubmit env props values st =
      Completed
        (st\<lparr>isCurrentlyAuthenticating := False,
            formErrorCode := Some (app_code (parseError env e)),
            callbacks := callbacks st @ [Called_onReauthFormSubmit auth]\<rparr>)"
    if "onReauthFormSubmit props auth = Some (Inl e)" for e
    using that
    by (simp add: onFormSubmit_def Let_def auth_def log_callback_def
        setIsCurrentlyAuthenticating_def setFormErrorCode_def)
  have completed: "\<not> isCurrentlyAuthenticating st' \<and>
            (onReauthFormSubmit props auth = Some (Inr ()) \<or>
             (\<exists>e. onReauthFormSubmit props auth = Some (Inl e))) \<and>
            (Called_onOpenChange False \<in> set (new_callbacks st st') \<longleftrightarrow>
               onReauthFormSubmit props auth = Some (Inr ())) \<and>
            (onReauthFormSubmit props auth = Some (Inr ()) \<longrightarrow>
               new_callbacks st st' = [Called_onReauthFormSubmit auth, Called_onOpenChange False] \<and>
               formErrorCode st' = formErrorCode st) \<and>
            (\<forall>e. onReauthFormSubmit props auth = Some (Inl e) \<longrightarrow>
               new_callbacks st st' = [Called_onReauthFormSubmit auth] \<and>
               formErrorCode st' = Some (app_code (parseError env e)))"
    if "onFormSubmit env props values st = Completed st'" for st'
    using that
    by (auto simp: onFormSubmit_def Let_def auth_def log_callback_def new_callbacks_def
        setIsCurrentlyAuthenticating_def setFormErrorCode_def split: option.splits sum.splits)
  show ?thesis
    using returned threw completed by blast
qed

text \<open>
  C10 on a run whose callback returns and on one whose callback throws, both starting
  with the flag true.
\<close>

theorem onFormSubmit_completed_witness:
  "onFormSubmit example_dialog_env example_props \<lparr>token = ''123456''\<rparr>
     ((example_state ''123456'')\<lparr>isCurrentlyAuthenticating := True\<rparr>) =
   Completed
     \<lparr>isCurrentlyAuthenticating = False, formErrorCode = None, form_token = ''123456'',
      form_errors = [],
      callbacks =
        [Called_onReauthFormSubmit \<lparr>auth_type = DocumentAuth_2FA, auth_token = ''123456''\<rparr>,
         Called_onOpenChange False]\<rparr> \<and>
   onFormSubmit example_dialog_env example_props \<lparr>token = ''000000''\<rparr>
     ((example_state ''000000'')\<lparr>isCurrentlyAuthenticating := True\<rparr>) =
   Completed
     \<lparr>isCurrentlyAuthenticating = False, formErrorCode = Some ''UnknownError'',
      form_token = ''000000'', form_errors = [],
      callbacks =
        [Called_onReauthFormSubmit \<lparr>auth_type = DocumentAuth_2FA, auth_token = ''000000''\<rparr>]\<rparr>"
proof -
  have a: "onReauthFormSubmit example_props
      \<lparr>auth_type = DocumentAuth_2FA, auth_token = token \<lparr>token = ''123456''\<rparr>\<rparr> = Some (Inr ())"
    by (simp add: example_props_def)
  have b: "onReauthFormSubmit example_props
      \<lparr>auth_type = DocumentAuth_2FA, auth_token = token \<lparr>token = ''000000''\<rparr>\<rparr> =
      Some (Inl (Error ''Invalid token''))"
    by (simp add: example_props_def)
  have p: "app_code (parseError example_dialog_env (Error ''Invalid token'')) = ''UnknownError''"
    by (simp add: example_dialog_env_def)
  show ?thesis
    using onFormSubmit_completed [of example_props "\<lparr>token = ''123456''\<rparr>" example_dialog_env
        "(example_state ''123456'')\<lparr>isCurrentlyAuthenticating := True\<rparr>"] a
      onFormSubmit_completed [of example_props "\<lparr>token = ''000000''\<rparr>" example_dialog_env
        "(example_state ''000000'')\<lparr>isCurrentlyAuthenticating := True\<rparr>"] b p
    by (simp add: example_state_def)
qed

end
